theory Spec2Isabelle
  imports Complex_Main "HOL-Library.Word" "HOL-Library.Multiset"
begin

section \<open>Values shared by the filler, the deserialization worker and the API\<close>

text \<open>
  A thrown JavaScript \<open>Error\<close> is the value \<open>Error msg\<close>; a function that may throw
  returns \<open>exn + 'a\<close>, \<open>Inl\<close> being the throw.
\<close>

datatype exn = Error string

text \<open>
  Values of TypeScript type \<open>any\<close> that the modelled code passes around: JSON values,
  and \<open>Uint8Array\<close>s (the portable decoder runs with \<open>bytesAsUint8Array: true\<close>).
\<close>

type_synonym byte = "8 word"

datatype jsval =
    JNull
  | JBool bool
  | JNum int
  | JStr string
  | JBytes "byte list"
  | JArr "jsval list"
  | JObj "(string \<times> jsval) list"

text \<open>\<open>Array.prototype.join\<close> on an array of strings.\<close>

fun join :: "string \<Rightarrow> string list \<Rightarrow> string" where
  "join sep [] = []"
| "join sep [x] = x"
| "join sep (x # y # ys) = x @ sep @ join sep (y # ys)"

section \<open>The priority queue of the handlers\<close>

text \<open>
  Modelled from the spec: \<open>PQueue\<close> is the p-queue package, which the handler imports and
  which is not among the source files. The spec (4.E, priority jobs) describes it: a
  serial queue (concurrency 1), paused by default, whose \<open>add(fn, priority)\<close> holds the
  work until the queue is started; higher priority runs first and, within equal
  priority, first in first out. The default priority of \<open>add\<close> is 0.

  The queue is the list of waiting elements, next to run first. \<open>enqueue\<close> puts a new
  element behind every waiting element whose priority is at least its own. \<open>add\<close> on a
  paused queue only enqueues; the promise it returns is identified with the job.
\<close>

record 'a PQueue =
  isPaused :: bool
  queue :: "(int \<times> 'a) list"

definition PQueue_new :: "bool \<Rightarrow> 'a PQueue" where
  "PQueue_new autoStart = \<lparr>isPaused = \<not> autoStart, queue = []\<rparr>"

definition pause :: "'a PQueue \<Rightarrow> 'a PQueue" where
  "pause q = q\<lparr>isPaused := True\<rparr>"

definition start :: "'a PQueue \<Rightarrow> 'a PQueue" where
  "start q = q\<lparr>isPaused := False\<rparr>"

fun enqueue :: "int \<times> 'a \<Rightarrow> (int \<times> 'a) list \<Rightarrow> (int \<times> 'a) list" where
  "enqueue e [] = [e]"
| "enqueue e (x # xs) = (if fst e \<le> fst x then x # enqueue e xs else e # x # xs)"

definition add :: "'a \<Rightarrow> int \<Rightarrow> 'a PQueue \<Rightarrow> 'a PQueue" where
  "add fn p q = q\<lparr>queue := enqueue (p, fn) (queue q)\<rparr>"

section \<open>AtomicMarket handler: states and priorities\<close>

datatype SaleState = SALE_WAITING | SALE_LISTED | SALE_CANCELED | SALE_SOLD

fun SaleState_valueOf :: "SaleState \<Rightarrow> int" where
  "SaleState_valueOf SALE_WAITING = 0"
| "SaleState_valueOf SALE_LISTED = 1"
| "SaleState_valueOf SALE_CANCELED = 2"
| "SaleState_valueOf SALE_SOLD = 3"

datatype AuctionState = AUCTION_WAITING | AUCTION_LISTED | AUCTION_CANCELED

fun AuctionState_valueOf :: "AuctionState \<Rightarrow> int" where
  "AuctionState_valueOf AUCTION_WAITING = 0"
| "AuctionState_valueOf AUCTION_LISTED = 1"
| "AuctionState_valueOf AUCTION_CANCELED = 2"

datatype JobPriority =
    TABLE_BALANCES
  | TABLE_MARKETPLACES
  | TABLE_CONFIG
  | ACTION_CREATE_SALE
  | ACTION_CREATE_AUCTION
  | TABLE_AUCTIONS
  | TABLE_SALES
  | ACTION_UPDATE_SALE
  | ACTION_UPDATE_AUCTION

fun JobPriority_valueOf :: "JobPriority \<Rightarrow> int" where
  "JobPriority_valueOf TABLE_BALANCES = 90"
| "JobPriority_valueOf TABLE_MARKETPLACES = 90"
| "JobPriority_valueOf TABLE_CONFIG = 90"
| "JobPriority_valueOf ACTION_CREATE_SALE = 80"
| "JobPriority_valueOf ACTION_CREATE_AUCTION = 80"
| "JobPriority_valueOf TABLE_AUCTIONS = 70"
| "JobPriority_valueOf TABLE_SALES = 70"
| "JobPriority_valueOf ACTION_UPDATE_SALE = 50"
| "JobPriority_valueOf ACTION_UPDATE_AUCTION = 50"

section \<open>AtomicMarket handler: state\<close>

record ShipBlock =
  block_id :: string
  block_num :: int

text \<open>The two fields of the block's database transaction that the handler reads.\<close>

record ContractDBTransaction =
  currentBlock :: int
  lastIrreversibleBlock :: int

text \<open>
  What the closure handed to \<open>notificationQueue.add\<close> captures: the arguments of
  \<open>pushNotificiation\<close>. \<open>tx\<close> is a transaction or \<open>null\<close> (\<open>JNull\<close>). \<open>data\<close> has type
  \<open>any\<close>: it is \<open>Some v\<close> for a value that \<open>JSON.stringify\<close> serialises as \<open>v\<close>, and
  \<open>None\<close> for \<open>undefined\<close> (or another value that \<open>JSON.stringify\<close> leaves out of a
  record).
\<close>

record notification =
  n_block :: ShipBlock
  n_tx :: jsval
  n_prefix :: string
  n_name :: string
  n_data :: "jsval option"

text \<open>
  The world outside the handler: the database the jobs write to, the Redis bus
  (\<open>publish_ok c m\<close> tells whether \<open>ioRedis.publish c m\<close> resolves; \<open>bus\<close> lists the
  delivered messages, oldest first, each the channel and the value that
  \<open>JSON.stringify\<close> serialises) and the warnings logged.
\<close>

record 'db world =
  database :: 'db
  publish_ok :: "string \<Rightarrow> jsval \<Rightarrow> bool"
  bus :: "(string \<times> jsval) list"
  warnings :: "string list"

text \<open>
  The action and table handlers that call \<open>addUpdateJob\<close> and \<open>pushNotificiation\<close> are
  not among the source files, so the function \<open>fn\<close> of an update job is a parameter:
  a sequence of database writes, calls of \<open>pushNotificiation\<close> and throws. A job that
  itself calls \<open>addUpdateJob\<close> is outside this model.
\<close>

datatype 'db effect =
    Write "'db \<Rightarrow> 'db"
  | Push ShipBlock jsval string string "jsval option"
  | Throw exn

record 'db AtomicMarketHandler =
  chain_name :: string
  reader_name :: string
  atomicmarket_account :: string
  reversible :: bool
  updateQueue :: "'db effect list PQueue"
  updateJobs :: "'db effect list list"
  notificationQueue :: "notification PQueue"
  notificationJobs :: "notification list"

type_synonym 'db state = "'db AtomicMarketHandler \<times> 'db world"

text \<open>
  The constructor: \<open>chain\<close> is \<open>connection.chain.name\<close>, \<open>reader\<close> is \<open>reader.name\<close>,
  \<open>account\<close> is \<open>args.atomicmarket_account\<close>.
\<close>

definition AtomicMarketHandler_new ::
  "string \<Rightarrow> string \<Rightarrow> jsval \<Rightarrow> exn + 'db AtomicMarketHandler" where
  "AtomicMarketHandler_new chain reader account =
     (case account of
        JStr a \<Rightarrow>
          Inr \<lparr>chain_name = chain, reader_name = reader, atomicmarket_account = a,
               reversible = False,
               updateQueue = pause (PQueue_new False), updateJobs = [],
               notificationQueue = pause (PQueue_new False), notificationJobs = []\<rparr>
      | _ \<Rightarrow>
          Inl (Error ''AtomicMarket: Argument missing in atomicmarket handler: atomicmarket_account''))"

section \<open>AtomicMarket handler: notifications\<close>

definition channelName :: "'db AtomicMarketHandler \<Rightarrow> string \<Rightarrow> string" where
  "channelName h prefix =
     join '':'' [''eosio-contract-api'', chain_name h, reader_name h,
                 ''atomicmarket'', atomicmarket_account h, prefix]"

text \<open>
  The record that \<open>JSON.stringify\<close> serialises: a field whose value is \<open>undefined\<close> is
  left out.
\<close>

definition payload :: "notification \<Rightarrow> jsval" where
  "payload n =
     JObj ([(''transaction'', n_tx n),
            (''block'', JObj [(''block_num'', JNum (block_num (n_block n))),
                              (''block_id'', JStr (block_id (n_block n)))]),
            (''action'', JStr (n_name n))] @
           (case n_data n of None \<Rightarrow> [] | Some d \<Rightarrow> [(''data'', d)]))"

text \<open>The body of a notification job: publish, and on failure only log a warning.\<close>

definition run_notification ::
  "'db AtomicMarketHandler \<Rightarrow> notification \<Rightarrow> 'db world \<Rightarrow> 'db world" where
  "run_notification h n w =
     (let c = channelName h (n_prefix n); m = payload n in
      if publish_ok w c m then w\<lparr>bus := bus w @ [(c, m)]\<rparr>
      else w\<lparr>warnings := warnings w @ [''Error while pushing notification'']\<rparr>)"

fun run_notifications ::
  "'db AtomicMarketHandler \<Rightarrow> (int \<times> notification) list \<Rightarrow> 'db world \<Rightarrow> 'db world" where
  "run_notifications h [] w = w"
| "run_notifications h (e # es) w = run_notifications h es (run_notification h (snd e) w)"

text \<open>
  What the notification queue does whenever it may run: nothing while paused,
  otherwise its waiting jobs one after the other, first in the queue first.
\<close>

definition processNotificationQueue :: "'db state \<Rightarrow> 'db state" where
  "processNotificationQueue s =
     (case s of (h, w) \<Rightarrow>
        if isPaused (notificationQueue h) then (h, w)
        else (h\<lparr>notificationQueue := (notificationQueue h)\<lparr>queue := []\<rparr>\<rparr>,
              run_notifications h (queue (notificationQueue h)) w))"

definition pushNotificiation ::
  "ShipBlock \<Rightarrow> jsval \<Rightarrow> string \<Rightarrow> string \<Rightarrow> jsval option \<Rightarrow> 'db state \<Rightarrow> 'db state"
  where
  "pushNotificiation block tx prefix name data s =
     (case s of (h, w) \<Rightarrow>
        if \<not> reversible h then (h, w)
        else
          let job = \<lparr>n_block = block, n_tx = tx, n_prefix = prefix, n_name = name,
                     n_data = data\<rparr>
          in processNotificationQueue
               (h\<lparr>notificationQueue := add job 0 (notificationQueue h),
                  notificationJobs := notificationJobs h @ [job]\<rparr>, w))"

definition onCommit :: "'db state \<Rightarrow> 'db state" where
  "onCommit s =
     (case s of (h, w) \<Rightarrow>
        case processNotificationQueue
               (h\<lparr>notificationQueue := start (notificationQueue h)\<rparr>, w) of
          (h', w') \<Rightarrow>
            (h'\<lparr>notificationQueue := pause (notificationQueue h'),
                notificationJobs := []\<rparr>, w'))"

section \<open>AtomicMarket handler: update jobs\<close>

text \<open>
  Between hooks the update queue is paused, so \<open>updateQueue.add\<close> only enqueues; the
  promise pushed onto \<open>updateJobs\<close> is identified with the job.
\<close>

definition addUpdateJob ::
  "'db effect list \<Rightarrow> JobPriority \<Rightarrow> 'db state \<Rightarrow> 'db state" where
  "addUpdateJob fn priority s =
     (case s of (h, w) \<Rightarrow>
        (h\<lparr>updateQueue := add fn (JobPriority_valueOf priority) (updateQueue h),
           updateJobs := updateJobs h @ [fn]\<rparr>, w))"

fun run_effect :: "'db effect \<Rightarrow> 'db state \<Rightarrow> exn + 'db state" where
  "run_effect (Write f) s = (case s of (h, w) \<Rightarrow> Inr (h, w\<lparr>database := f (database w)\<rparr>))"
| "run_effect (Push block tx prefix name data) s =
     Inr (pushNotificiation block tx prefix name data s)"
| "run_effect (Throw e) s = Inl e"

text \<open>One update job: the wrapper of \<open>addUpdateJob\<close> rethrows what \<open>fn\<close> throws.\<close>

fun run_effects :: "'db effect list \<Rightarrow> 'db state \<Rightarrow> exn + 'db state" where
  "run_effects [] s = Inr s"
| "run_effects (e # es) s =
     (case run_effect e s of Inl x \<Rightarrow> Inl x | Inr s' \<Rightarrow> run_effects es s')"

text \<open>Neither a write nor a notification touches the update queue or its promises.\<close>

lemma processNotificationQueue_updateQueue:
  "processNotificationQueue (h, w) = (h', w') \<Longrightarrow>
     updateQueue h' = updateQueue h \<and> updateJobs h' = updateJobs h"
  by (auto simp: processNotificationQueue_def split: if_splits)

lemma pushNotificiation_updateQueue:
  "pushNotificiation b tx p n d (h, w) = (h', w') \<Longrightarrow>
     updateQueue h' = updateQueue h \<and> updateJobs h' = updateJobs h"
  by (auto simp: pushNotificiation_def Let_def split: if_splits
      dest!: processNotificationQueue_updateQueue)

lemma run_effect_updateQueue:
  "run_effect e (h, w) = Inr (h', w') \<Longrightarrow>
     updateQueue h' = updateQueue h \<and> updateJobs h' = updateJobs h"
  by (cases e) (auto dest!: pushNotificiation_updateQueue)

lemma run_effects_updateQueue:
  "run_effects es (h, w) = Inr (h', w') \<Longrightarrow>
     updateQueue h' = updateQueue h \<and> updateJobs h' = updateJobs h"
proof (induction es arbitrary: h w)
  case Nil
  then show ?case by simp
next
  case (Cons e es)
  then show ?case
    by (fastforce split: sum.splits dest: run_effect_updateQueue)
qed

text \<open>
  What the update queue does whenever it may run: nothing while paused; otherwise it
  takes the first waiting job off the queue, runs it to its end (concurrency 1) and
  goes on with the next. A job that throws rejects its promise, and with it the
  \<open>Promise.all\<close> that \<open>onBlockComplete\<close> awaits: the model stops there with the
  exception (the receiver aborts the block; what the still started queue does after
  that is not modelled).
\<close>

function processUpdateQueue :: "'db state \<Rightarrow> exn + 'db state" where
  "processUpdateQueue (h, w) =
     (if isPaused (updateQueue h) then Inr (h, w)
      else case queue (updateQueue h) of
        [] \<Rightarrow> Inr (h, w)
      | e # rest \<Rightarrow>
          (case run_effects (snd e) (h\<lparr>updateQueue := (updateQueue h)\<lparr>queue := rest\<rparr>\<rparr>, w) of
             Inl x \<Rightarrow> Inl x
           | Inr s' \<Rightarrow> processUpdateQueue s'))"
  by pat_completeness auto
termination
proof (relation "measure (\<lambda>(h, w). length (queue (updateQueue h)))")
  show "wf (measure (\<lambda>(h, w). length (queue (updateQueue h))))" by simp
next
  fix h :: "'db AtomicMarketHandler" and w :: "'db world" and e rest s'
  assume q: "queue (updateQueue h) = e # rest"
    and r: "run_effects (snd e) (h\<lparr>updateQueue := (updateQueue h)\<lparr>queue := rest\<rparr>\<rparr>, w) = Inr s'"
  obtain h' w' where s': "s' = (h', w')" by (cases s')
  from r s' have "updateQueue h' = (updateQueue h)\<lparr>queue := rest\<rparr>"
    using run_effects_updateQueue by fastforce
  with q s' show "(s', (h, w)) \<in> measure (\<lambda>(h, w). length (queue (updateQueue h)))"
    by simp
qed

declare processUpdateQueue.simps [simp del]

text \<open>
  \<open>onBlockComplete\<close> sets the flag, starts the queue and awaits
  \<open>Promise.all(updateJobs)\<close>: the promises are those of the queued jobs, so the wait
  ends when the queue has run them all, or with the exception of the first job that
  throws; only a wait that ends well is followed by the pause and the emptying of
  the job list.
\<close>

definition onBlockComplete :: "ContractDBTransaction \<Rightarrow> 'db state \<Rightarrow> exn + 'db state" where
  "onBlockComplete db s =
     (case s of (h, w) \<Rightarrow>
        let h1 = h\<lparr>reversible := lastIrreversibleBlock db < currentBlock db\<rparr>;
            h2 = h1\<lparr>updateQueue := start (updateQueue h1)\<rparr>
        in case processUpdateQueue (h2, w) of
             Inl x \<Rightarrow> Inl x
           | Inr (h3, w3) \<Rightarrow>
               Inr (h3\<lparr>updateQueue := pause (updateQueue h3), updateJobs := []\<rparr>, w3))"

text \<open>
  The calls a handler receives. \<open>Do e\<close> is one thing \<open>onAction\<close> or \<open>onTableChange\<close>
  does (through the action and table handlers, which are not among the source files):
  a write, a \<open>pushNotificiation\<close> or a throw. \<open>onBlockStart\<close> does nothing.
\<close>

datatype 'db hook =
    Do "'db effect"
  | AddUpdateJob "'db effect list" JobPriority
  | OnBlockComplete ContractDBTransaction
  | OnCommit

fun step :: "'db hook \<Rightarrow> 'db state \<Rightarrow> exn + 'db state" where
  "step (Do e) s = run_effect e s"
| "step (AddUpdateJob fn priority) s = Inr (addUpdateJob fn priority s)"
| "step (OnBlockComplete db) s = onBlockComplete db s"
| "step OnCommit s = Inr (onCommit s)"

fun run_hooks :: "'db hook list \<Rightarrow> 'db state \<Rightarrow> exn + 'db state" where
  "run_hooks [] s = Inr s"
| "run_hooks (c # cs) s = (case step c s of Inl x \<Rightarrow> Inl x | Inr s' \<Rightarrow> run_hooks cs s')"

section \<open>Order of the update jobs\<close>

text \<open>
  The hooks of one block before \<open>onBlockComplete\<close>, and the jobs they add, in the order
  they add them.
\<close>

fun in_block :: "'db hook \<Rightarrow> bool" where
  "in_block (Do e) = True"
| "in_block (AddUpdateJob fn priority) = True"
| "in_block (OnBlockComplete db) = False"
| "in_block OnCommit = False"

fun jobs_of :: "'db hook list \<Rightarrow> ('db effect list \<times> JobPriority) list" where
  "jobs_of [] = []"
| "jobs_of (AddUpdateJob fn priority # cs) = (fn, priority) # jobs_of cs"
| "jobs_of (c # cs) = jobs_of cs"

text \<open>Jobs run one after the other, each to its end; the first throw ends the run.\<close>

fun run_jobs :: "'db effect list list \<Rightarrow> 'db state \<Rightarrow> exn + 'db state" where
  "run_jobs [] s = Inr s"
| "run_jobs (fn # fns) s = (case run_effects fn s of Inl x \<Rightarrow> Inl x | Inr s' \<Rightarrow> run_jobs fns s')"

text \<open>A queue in non-increasing order of priority.\<close>

definition by_priority :: "(int \<times> 'a) list \<Rightarrow> bool" where
  "by_priority q = sorted_wrt (\<lambda>a b. fst b \<le> fst a) q"

lemma set_enqueue: "set (enqueue e q) = insert e (set q)"
  by (induction q) auto

lemma mset_enqueue: "mset (enqueue e q) = add_mset e (mset q)"
  by (induction q) auto

lemma by_priority_enqueue: "by_priority q \<Longrightarrow> by_priority (enqueue e q)"
  unfolding by_priority_def
  by (induction q) (auto simp: set_enqueue)

lemma filter_enqueue:
  "by_priority q \<Longrightarrow>
   filter (\<lambda>x. fst x = k) (enqueue e q) =
     filter (\<lambda>x. fst x = k) q @ (if fst e = k then [e] else [])"
  unfolding by_priority_def
proof (induction q)
  case Nil
  then show ?case by simp
next
  case (Cons x xs)
  show ?case
  proof (cases "fst e \<le> fst x")
    case True
    with Cons show ?thesis by simp
  next
    case False
    with Cons.prems have "\<forall>y\<in>set (x # xs). fst y < fst e" by auto
    then have "fst e = k \<Longrightarrow> filter (\<lambda>x. fst x = k) (x # xs) = []"
      by (auto simp: filter_empty_conv)
    with False show ?thesis by auto
  qed
qed

text \<open>The queue element that \<open>addUpdateJob fn priority\<close> makes.\<close>

definition stage :: "('a \<times> JobPriority) \<Rightarrow> int \<times> 'a" where
  "stage j = (JobPriority_valueOf (snd j), fst j)"

lemma fold_add:
  "by_priority (queue Q) \<Longrightarrow>
   by_priority (queue (fold (\<lambda>j. add (fst j) (JobPriority_valueOf (snd j))) js Q)) \<and>
   (\<forall>k. filter (\<lambda>x. fst x = k) (queue (fold (\<lambda>j. add (fst j) (JobPriority_valueOf (snd j))) js Q)) =
      filter (\<lambda>x. fst x = k) (queue Q) @ filter (\<lambda>x. fst x = k) (map stage js)) \<and>
   mset (map snd (queue (fold (\<lambda>j. add (fst j) (JobPriority_valueOf (snd j))) js Q))) =
      mset (map snd (queue Q)) + mset (map fst js) \<and>
   isPaused (fold (\<lambda>j. add (fst j) (JobPriority_valueOf (snd j))) js Q) = isPaused Q"
proof (induction js arbitrary: Q)
  case Nil
  then show ?case by simp
next
  case (Cons j js)
  let ?Q = "add (fst j) (JobPriority_valueOf (snd j)) Q"
  have s: "by_priority (queue ?Q)"
    using Cons.prems by (simp add: add_def by_priority_enqueue)
  have f: "filter (\<lambda>x. fst x = k) (queue ?Q) = filter (\<lambda>x. fst x = k) (queue Q) @ filter (\<lambda>x. fst x = k) [stage j]" for k
    using Cons.prems by (simp add: add_def filter_enqueue stage_def)
  have m: "mset (map snd (queue ?Q)) = mset (map snd (queue Q)) + {#fst j#}"
    by (simp add: add_def mset_enqueue)
  have p: "isPaused ?Q = isPaused Q" by (simp add: add_def)
  from Cons.IH [OF s] f m p show ?case by simp
qed

lemma run_hooks_in_block:
  "list_all in_block cs \<Longrightarrow> run_hooks cs (h, w) = Inr (h', w') \<Longrightarrow>
   updateQueue h' = fold (\<lambda>j. add (fst j) (JobPriority_valueOf (snd j))) (jobs_of cs) (updateQueue h) \<and>
   updateJobs h' = updateJobs h @ map fst (jobs_of cs)"
proof (induction cs arbitrary: h w)
  case Nil
  then show ?case by simp
next
  case (Cons c cs)
  show ?case
  proof (cases c)
    case (Do e)
    with Cons.prems obtain h1 w1 where 1: "run_effect e (h, w) = Inr (h1, w1)"
      and 2: "run_hooks cs (h1, w1) = Inr (h', w')"
      by (auto split: sum.splits)
    from Cons.IH [OF _ 2] Cons.prems(1) run_effect_updateQueue [OF 1] Do
    show ?thesis by simp
  next
    case (AddUpdateJob fn p)
    with Cons.prems have 2: "run_hooks cs (h\<lparr>updateQueue := add fn (JobPriority_valueOf p) (updateQueue h),
           updateJobs := updateJobs h @ [fn]\<rparr>, w) = Inr (h', w')"
      by (simp add: addUpdateJob_def)
    from Cons.IH [OF _ 2] Cons.prems(1) AddUpdateJob show ?thesis by simp
  next
    case (OnBlockComplete db)
    with Cons.prems show ?thesis by simp
  next
    case OnCommit
    with Cons.prems show ?thesis by simp
  qed
qed


lemma run_notifications_cong:
  "channelName h = channelName h' \<Longrightarrow> run_notifications h ns w = run_notifications h' ns w"
  by (induction ns arbitrary: w) (simp_all add: run_notification_def)

lemma pushNotificiation_frame:
  "pushNotificiation b tx p n d (h\<lparr>updateQueue := Q\<rparr>, w) =
     (case pushNotificiation b tx p n d (h, w) of (h', w') \<Rightarrow> (h'\<lparr>updateQueue := Q\<rparr>, w'))"
  by (auto simp: pushNotificiation_def processNotificationQueue_def Let_def
      intro!: run_notifications_cong simp: fun_eq_iff channelName_def)

lemma run_effect_frame:
  "run_effect e (h\<lparr>updateQueue := Q\<rparr>, w) =
     map_sum (\<lambda>x. x) (\<lambda>s. (fst s\<lparr>updateQueue := Q\<rparr>, snd s)) (run_effect e (h, w))"
  by (cases e) (simp_all add: pushNotificiation_frame split: prod.splits)

lemma run_effects_frame:
  "run_effects es (h\<lparr>updateQueue := Q\<rparr>, w) =
     map_sum (\<lambda>x. x) (\<lambda>s. (fst s\<lparr>updateQueue := Q\<rparr>, snd s)) (run_effects es (h, w))"
proof (induction es arbitrary: h w)
  case Nil
  then show ?case by simp
next
  case (Cons e es)
  show ?case
  proof (cases "run_effect e (h, w)")
    case (Inl x)
    then show ?thesis by (simp add: run_effect_frame)
  next
    case (Inr s)
    obtain h1 w1 where s: "s = (h1, w1)" by (cases s)
    with Inr Cons.IH [of h1 w1] show ?thesis by (simp add: run_effect_frame)
  qed
qed

lemma run_jobs_frame:
  "run_jobs fns (h\<lparr>updateQueue := Q\<rparr>, w) =
     map_sum (\<lambda>x. x) (\<lambda>s. (fst s\<lparr>updateQueue := Q\<rparr>, snd s)) (run_jobs fns (h, w))"
proof (induction fns arbitrary: h w)
  case Nil
  then show ?case by simp
next
  case (Cons fn fns)
  show ?case
  proof (cases "run_effects fn (h, w)")
    case (Inl x)
    then show ?thesis by (simp add: run_effects_frame)
  next
    case (Inr s)
    obtain h1 w1 where s: "s = (h1, w1)" by (cases s)
    with Inr Cons.IH [of h1 w1] show ?thesis by (simp add: run_effects_frame)
  qed
qed

lemma processUpdateQueue_run_jobs:
  "queue (updateQueue h) = q \<Longrightarrow> \<not> isPaused (updateQueue h) \<Longrightarrow>
   processUpdateQueue (h, w) =
     map_sum (\<lambda>x. x) (\<lambda>s. (fst s\<lparr>updateQueue := (updateQueue h)\<lparr>queue := []\<rparr>\<rparr>, snd s))
       (run_jobs (map snd q) (h, w))"
proof (induction q arbitrary: h w)
  case Nil
  then show ?case by (simp add: processUpdateQueue.simps)
next
  case (Cons e rest)
  let ?h = "h\<lparr>updateQueue := (updateQueue h)\<lparr>queue := rest\<rparr>\<rparr>"
  show ?case
  proof (cases "run_effects (snd e) (h, w)")
    case (Inl x)
    with Cons.prems show ?thesis
      by (simp add: run_effects_frame processUpdateQueue.simps [of h])
  next
    case (Inr s)
    obtain h1 w1 where s: "s = (h1, w1)" by (cases s)
    from Inr s have u: "updateQueue h1 = updateQueue h"
      using run_effects_updateQueue by blast
    have r: "run_effects (snd e) (?h, w) = Inr (h1\<lparr>updateQueue := (updateQueue h)\<lparr>queue := rest\<rparr>\<rparr>, w1)"
      using Inr s by (simp add: run_effects_frame)
    have "processUpdateQueue (h, w) =
            processUpdateQueue (h1\<lparr>updateQueue := (updateQueue h)\<lparr>queue := rest\<rparr>\<rparr>, w1)"
      using Cons.prems r by (simp add: processUpdateQueue.simps [of h])
    also have "\<dots> = map_sum (\<lambda>x. x) (\<lambda>s. (fst s\<lparr>updateQueue := (updateQueue h)\<lparr>queue := []\<rparr>\<rparr>, snd s))
       (run_jobs (map snd rest) (h1\<lparr>updateQueue := (updateQueue h)\<lparr>queue := rest\<rparr>\<rparr>, w1))"
      using Cons.IH [of "h1\<lparr>updateQueue := (updateQueue h)\<lparr>queue := rest\<rparr>\<rparr>" w1] Cons.prems(2)
      by simp
    also have "\<dots> = map_sum (\<lambda>x. x) (\<lambda>s. (fst s\<lparr>updateQueue := (updateQueue h)\<lparr>queue := []\<rparr>\<rparr>, snd s))
       (run_jobs (map snd rest) (h1, w1))"
      by (simp add: run_jobs_frame sum.map_comp comp_def)
    finally show ?thesis using Inr s by simp
  qed
qed

lemma onBlockComplete_run_jobs:
  "onBlockComplete db (h, w) =
     map_sum (\<lambda>x. x)
       (\<lambda>s. (fst s\<lparr>updateQueue := (updateQueue h)\<lparr>isPaused := True, queue := []\<rparr>,
                    updateJobs := []\<rparr>, snd s))
       (run_jobs (map snd (queue (updateQueue h)))
          (h\<lparr>reversible := lastIrreversibleBlock db < currentBlock db\<rparr>, w))"
proof -
  let ?h1 = "h\<lparr>reversible := lastIrreversibleBlock db < currentBlock db\<rparr>"
  let ?h2 = "h\<lparr>reversible := lastIrreversibleBlock db < currentBlock db,
                updateQueue := (updateQueue h)\<lparr>isPaused := False\<rparr>\<rparr>"
  have "processUpdateQueue (?h2, w) =
     map_sum (\<lambda>x. x) (\<lambda>s. (fst s\<lparr>updateQueue := (updateQueue ?h2)\<lparr>queue := []\<rparr>\<rparr>, snd s))
       (run_jobs (map snd (queue (updateQueue h))) (?h2, w))"
    by (rule processUpdateQueue_run_jobs) simp_all
  then have p: "processUpdateQueue (?h2, w) =
     map_sum (\<lambda>x. x) (\<lambda>s. (fst s\<lparr>updateQueue := (updateQueue h)\<lparr>isPaused := False, queue := []\<rparr>\<rparr>, snd s))
       (run_jobs (map snd (queue (updateQueue h))) (?h1, w))"
    using run_jobs_frame [of "map snd (queue (updateQueue h))" "(updateQueue h)\<lparr>isPaused := False\<rparr>" ?h1 w]
    by (simp add: sum.map_comp comp_def)
  show ?thesis
    by (cases "run_jobs (map snd (queue (updateQueue h))) (?h1, w)")
       (simp_all add: onBlockComplete_def p Let_def pause_def start_def split: prod.splits)
qed

section \<open>A handler, a world and a block to run the model on\<close>

definition ex_world :: "string list world" where
  "ex_world = \<lparr>database = [], publish_ok = (\<lambda>c m. True), bus = [], warnings = []\<rparr>"

definition ex_handler :: "string list AtomicMarketHandler" where
  "ex_handler =
     \<lparr>chain_name = ''wax'', reader_name = ''atomic-1'', atomicmarket_account = ''atomicmarket'',
      reversible = False,
      updateQueue = \<lparr>isPaused = True, queue = []\<rparr>, updateJobs = [],
      notificationQueue = \<lparr>isPaused = True, queue = []\<rparr>, notificationJobs = []\<rparr>"

definition log_job :: "string \<Rightarrow> string list effect list" where
  "log_job l = [Write (\<lambda>d. d @ [l])]"

definition ex_hooks :: "string list hook list" where
  "ex_hooks =
     [AddUpdateJob (log_job ''update sale'') ACTION_UPDATE_SALE,
      AddUpdateJob (log_job ''sales row'') TABLE_SALES,
      Do (Write (\<lambda>d. d @ [''action''])),
      AddUpdateJob (log_job ''auctions row'') TABLE_AUCTIONS,
      AddUpdateJob (log_job ''config row'') TABLE_CONFIG]"

definition ex_staged :: "string list AtomicMarketHandler" where
  "ex_staged =
     ex_handler
       \<lparr>updateQueue :=
          \<lparr>isPaused = True,
           queue = [(90, log_job ''config row''), (70, log_job ''sales row''),
                    (70, log_job ''auctions row''), (50, log_job ''update sale'')]\<rparr>,
        updateJobs := [log_job ''update sale'', log_job ''sales row'',
                       log_job ''auctions row'', log_job ''config row'']\<rparr>"

definition ex_block :: ShipBlock where
  "ex_block = \<lparr>block_id = ''0000000b5f3a'', block_num = 11\<rparr>"

definition ex_created :: notification where
  "ex_created =
     \<lparr>n_block = ex_block, n_tx = JNull, n_prefix = ''sales'', n_name = ''create'',
      n_data = Some (JObj [(''sale_id'', JNum 5)])\<rparr>"

definition ex_changed :: notification where
  "ex_changed =
     \<lparr>n_block = ex_block, n_tx = JObj [(''id'', JStr ''ab12'')], n_prefix = ''sales'',
      n_name = ''state_change'',
      n_data = Some (JObj [(''sale_id'', JNum 5), (''state'', JNum 3)])\<rparr>"

definition ex_push :: "notification \<Rightarrow> string list effect" where
  "ex_push n = Push (n_block n) (n_tx n) (n_prefix n) (n_name n) (n_data n)"

definition ex_two_blocks :: "string list hook list" where
  "ex_two_blocks =
     [OnBlockComplete \<lparr>currentBlock = 10, lastIrreversibleBlock = 5\<rparr>, OnCommit,
      Do (ex_push ex_created),
      AddUpdateJob [Write (\<lambda>d. d @ [''sale 5 sold'']), ex_push ex_changed] ACTION_UPDATE_SALE,
      OnBlockComplete \<lparr>currentBlock = 11, lastIrreversibleBlock = 6\<rparr>]"

definition ex_pending :: "string list AtomicMarketHandler" where
  "ex_pending =
     ex_handler
       \<lparr>reversible := True,
        notificationQueue := \<lparr>isPaused = True, queue = [(0, ex_created), (0, ex_changed)]\<rparr>,
        notificationJobs := [ex_created, ex_changed]\<rparr>"

definition ex_late :: ContractDBTransaction where
  "ex_late = \<lparr>currentBlock = 11, lastIrreversibleBlock = 20\<rparr>"

definition ex_job_pending :: "string list AtomicMarketHandler" where
  "ex_job_pending =
     ex_handler
       \<lparr>updateQueue :=
          \<lparr>isPaused = True,
           queue = [(50, [Write (\<lambda>d. d @ [''sale 5 sold'']), ex_push ex_changed])]\<rparr>,
        updateJobs := [[Write (\<lambda>d. d @ [''sale 5 sold'']), ex_push ex_changed]]\<rparr>"

section \<open>Update jobs drain by priority\<close>

text \<open>
  Claim C3. Take a handler whose update queue and job list are empty (as the constructor
  and every returning \<open>onBlockComplete\<close> leave them) and let the hooks \<open>cs\<close> of one block
  run. Then the job list holds the added jobs in the order they were added; the queue
  holds them in non-increasing order of priority; for every priority \<open>k\<close> the jobs of
  priority \<open>k\<close> stand in the queue in the order they were added; every added job is in
  the queue; and \<open>onBlockComplete\<close> does what running the queued jobs one after the
  other in queue order does (each job to its end before the next starts), throwing
  what the first failing job throws. When it returns, every job has run, the queue
  is paused and empty and the job list is empty.
\<close>

theorem update_jobs_run_by_priority:
  assumes "queue (updateQueue h0) = []" and "updateJobs h0 = []"
    and "list_all in_block cs" and "run_hooks cs (h0, w0) = Inr (h, w)"
  shows "updateJobs h = map fst (jobs_of cs) \<and>
    sorted_wrt (\<lambda>a b. fst b \<le> fst a) (queue (updateQueue h)) \<and>
    (\<forall>k. filter (\<lambda>e. fst e = k) (queue (updateQueue h)) =
          filter (\<lambda>e. fst e = k) (map stage (jobs_of cs))) \<and>
    mset (map snd (queue (updateQueue h))) = mset (updateJobs h) \<and>
    onBlockComplete db (h, w) =
      map_sum (\<lambda>x. x)
        (\<lambda>s. (fst s\<lparr>updateQueue := (updateQueue h)\<lparr>isPaused := True, queue := []\<rparr>,
                     updateJobs := []\<rparr>, snd s))
        (run_jobs (map snd (queue (updateQueue h)))
           (h\<lparr>reversible := lastIrreversibleBlock db < currentBlock db\<rparr>, w)) \<and>
    (\<forall>s'. onBlockComplete db (h, w) = Inr s' \<longrightarrow>
          isPaused (updateQueue (fst s')) \<and> queue (updateQueue (fst s')) = [] \<and>
          updateJobs (fst s') = [])"
proof -
  let ?add = "\<lambda>j. add (fst j) (JobPriority_valueOf (snd j))"
  from run_hooks_in_block [OF assms(3,4)]
  have q: "updateQueue h = fold ?add (jobs_of cs) (updateQueue h0)"
    and j: "updateJobs h = map fst (jobs_of cs)"
    using assms(2) by simp_all
  have "by_priority (queue (updateQueue h0))"
    using assms(1) by (simp add: by_priority_def)
  from fold_add [OF this, of "jobs_of cs"] q
  have s: "by_priority (queue (updateQueue h))"
    and f: "\<forall>k. filter (\<lambda>e. fst e = k) (queue (updateQueue h)) =
          filter (\<lambda>e. fst e = k) (map stage (jobs_of cs))"
    and m: "mset (map snd (queue (updateQueue h))) = mset (map fst (jobs_of cs))"
    using assms(1) by simp_all
  have e: "\<forall>s'. onBlockComplete db (h, w) = Inr s' \<longrightarrow>
          isPaused (updateQueue (fst s')) \<and> queue (updateQueue (fst s')) = [] \<and>
          updateJobs (fst s') = []"
    by (auto simp: onBlockComplete_run_jobs [of db h w] map_sum_def split: sum.splits)
  from j s f m e show ?thesis
    using onBlockComplete_run_jobs [of db h w] by (simp add: by_priority_def)
qed

theorem update_jobs_run_by_priority_witness:
  "queue (updateQueue ex_handler) = [] \<and> updateJobs ex_handler = [] \<and>
   list_all in_block ex_hooks \<and>
   run_hooks ex_hooks (ex_handler, ex_world) =
     Inr (ex_staged, ex_world\<lparr>database := [''action'']\<rparr>) \<and>
   map_sum (\<lambda>x. x) (\<lambda>s. database (snd s))
     (onBlockComplete \<lparr>currentBlock = 7, lastIrreversibleBlock = 3\<rparr>
        (ex_staged, ex_world\<lparr>database := [''action'']\<rparr>)) =
     Inr [''action'', ''config row'', ''sales row'', ''auctions row'', ''update sale'']"
proof -
  let ?w = "ex_world\<lparr>database := [''action'']\<rparr>"
  let ?db = "\<lparr>currentBlock = 7, lastIrreversibleBlock = 3\<rparr>"
  have 1: "queue (updateQueue ex_handler) = []" and 2: "updateJobs ex_handler = []"
    by (simp_all add: ex_handler_def)
  have 3: "list_all in_block ex_hooks"
    by (simp add: ex_hooks_def)
  have 4: "run_hooks ex_hooks (ex_handler, ex_world) = Inr (ex_staged, ?w)"
    by (simp add: ex_hooks_def ex_staged_def ex_handler_def ex_world_def addUpdateJob_def
        add_def)
  from update_jobs_run_by_priority [OF 1 2 3 4, of ?db]
  have "onBlockComplete ?db (ex_staged, ?w) =
      map_sum (\<lambda>x. x)
        (\<lambda>s. (fst s\<lparr>updateQueue := (updateQueue ex_staged)\<lparr>isPaused := True, queue := []\<rparr>,
                     updateJobs := []\<rparr>, snd s))
        (run_jobs (map snd (queue (updateQueue ex_staged)))
           (ex_staged\<lparr>reversible := lastIrreversibleBlock ?db < currentBlock ?db\<rparr>, ?w))"
    by blast
  then have r: "map_sum (\<lambda>x. x) (\<lambda>s. database (snd s)) (onBlockComplete ?db (ex_staged, ?w)) =
     Inr [''action'', ''config row'', ''sales row'', ''auctions row'', ''update sale'']"
    by (simp add: ex_staged_def log_job_def ex_world_def)
  from 1 2 3 4 r show ?thesis by blast
qed

section \<open>Notifications are staged until the commit\<close>

text \<open>
  The notification queue is paused and holds, in the order they were pushed and all at
  the default priority 0, the jobs whose promises \<open>notificationJobs\<close> holds.
\<close>

definition staged :: "'db AtomicMarketHandler \<Rightarrow> bool" where
  "staged h \<longleftrightarrow>
     isPaused (notificationQueue h) \<and>
     queue (notificationQueue h) = map (Pair 0) (notificationJobs h)"

text \<open>The names a handler builds its channel names from.\<close>

definition names :: "'db AtomicMarketHandler \<Rightarrow> string \<times> string \<times> string" where
  "names h = (chain_name h, reader_name h, atomicmarket_account h)"

text \<open>
  The message a notification job publishes, and whether its publication resolves.
\<close>

definition message :: "'db AtomicMarketHandler \<Rightarrow> notification \<Rightarrow> string \<times> jsval" where
  "message h n = (channelName h (n_prefix n), payload n)"

definition delivered :: "'db AtomicMarketHandler \<Rightarrow> 'db world \<Rightarrow> notification \<Rightarrow> bool" where
  "delivered h w n = publish_ok w (channelName h (n_prefix n)) (payload n)"

lemma enqueue_zero: "enqueue (0, j) (map (Pair 0) js) = map (Pair 0) (js @ [j])"
  by (induction js) simp_all

lemma staged_new: "AtomicMarketHandler_new chain reader account = Inr h \<Longrightarrow> staged h"
  by (auto simp: AtomicMarketHandler_new_def staged_def pause_def PQueue_new_def
      split: jsval.splits)

lemma staged_pushNotificiation:
  "staged h \<Longrightarrow> pushNotificiation b tx p n d (h, w) = (h', w') \<Longrightarrow>
   staged h' \<and> w' = w \<and> names h' = names h \<and>
   notificationJobs h' =
     notificationJobs h @
       (if reversible h
        then [\<lparr>n_block = b, n_tx = tx, n_prefix = p, n_name = n, n_data = d\<rparr>] else [])"
  by (auto simp: staged_def pushNotificiation_def processNotificationQueue_def Let_def
      add_def enqueue_zero names_def split: if_splits)

lemma staged_run_effect:
  "staged h \<Longrightarrow> run_effect e (h, w) = Inr (h', w') \<Longrightarrow>
   staged h' \<and> bus w' = bus w \<and> publish_ok w' = publish_ok w \<and> names h' = names h"
  by (cases e) (auto dest: staged_pushNotificiation)

lemma staged_run_effects:
  "staged h \<Longrightarrow> run_effects es (h, w) = Inr (h', w') \<Longrightarrow>
   staged h' \<and> bus w' = bus w \<and> publish_ok w' = publish_ok w \<and> names h' = names h"
proof (induction es arbitrary: h w)
  case Nil
  then show ?case by simp
next
  case (Cons e es)
  from Cons.prems obtain h1 w1 where 1: "run_effect e (h, w) = Inr (h1, w1)"
    and 2: "run_effects es (h1, w1) = Inr (h', w')"
    by (auto split: sum.splits)
  from staged_run_effect [OF Cons.prems(1) 1] Cons.IH [OF _ 2] show ?case by simp
qed

lemma staged_run_jobs:
  "staged h \<Longrightarrow> run_jobs fns (h, w) = Inr (h', w') \<Longrightarrow>
   staged h' \<and> bus w' = bus w \<and> publish_ok w' = publish_ok w \<and> names h' = names h"
proof (induction fns arbitrary: h w)
  case Nil
  then show ?case by simp
next
  case (Cons fn fns)
  from Cons.prems obtain h1 w1 where 1: "run_effects fn (h, w) = Inr (h1, w1)"
    and 2: "run_jobs fns (h1, w1) = Inr (h', w')"
    by (auto split: sum.splits)
  from staged_run_effects [OF Cons.prems(1) 1] Cons.IH [OF _ 2] show ?case by simp
qed

lemma staged_onBlockComplete:
  assumes "staged h" and "onBlockComplete db (h, w) = Inr (h', w')"
  shows "staged h' \<and> bus w' = bus w \<and> publish_ok w' = publish_ok w \<and>
         names h' = names h"
proof -
  let ?h = "h\<lparr>reversible := lastIrreversibleBlock db < currentBlock db\<rparr>"
  from assms(2) obtain h1 w1
    where r: "run_jobs (map snd (queue (updateQueue h))) (?h, w) = Inr (h1, w1)"
      and h': "h' = h1\<lparr>updateQueue := (updateQueue h)\<lparr>isPaused := True, queue := []\<rparr>,
                       updateJobs := []\<rparr>"
      and w': "w' = w1"
    by (cases "run_jobs (map snd (queue (updateQueue h))) (?h, w)")
       (auto simp: onBlockComplete_run_jobs)
  have "staged ?h" and c: "names ?h = names h"
    using assms(1) by (simp_all add: staged_def names_def)
  from staged_run_jobs [OF this(1) r] c h' w' show ?thesis
    by (simp add: staged_def names_def)
qed

lemma run_notifications_bus:
  "bus (run_notifications h (map (Pair 0) ns) w) =
     bus w @ map (message h) (filter (delivered h w) ns) \<and>
   publish_ok (run_notifications h (map (Pair 0) ns) w) = publish_ok w \<and>
   database (run_notifications h (map (Pair 0) ns) w) = database w"
proof (induction ns arbitrary: w)
  case Nil
  then show ?case by simp
next
  case (Cons n ns)
  have d: "delivered h (run_notification h n w) = delivered h w"
    by (simp add: delivered_def run_notification_def Let_def fun_eq_iff)
  show ?case
    using Cons.IH [of "run_notification h n w"]
    by (simp add: d) (simp add: run_notification_def Let_def message_def delivered_def)
qed

lemma staged_onCommit:
  assumes "staged h"
  shows "staged (fst (onCommit (h, w))) \<and>
     notificationJobs (fst (onCommit (h, w))) = [] \<and>
     queue (notificationQueue (fst (onCommit (h, w)))) = [] \<and>
     names (fst (onCommit (h, w))) = names h \<and>
     publish_ok (snd (onCommit (h, w))) = publish_ok w \<and>
     database (snd (onCommit (h, w))) = database w \<and>
     bus (snd (onCommit (h, w))) =
       bus w @ map (message h) (filter (delivered h w) (notificationJobs h))"
proof -
  let ?h = "h\<lparr>notificationQueue := (notificationQueue h)\<lparr>isPaused := False\<rparr>\<rparr>"
  have m: "message ?h = message h" "delivered ?h = delivered h"
    by (simp_all add: fun_eq_iff message_def delivered_def channelName_def)
  from assms run_notifications_bus [of ?h "notificationJobs h" w] show ?thesis
    by (simp add: onCommit_def processNotificationQueue_def staged_def start_def pause_def
        m names_def)
qed

lemma staged_step:
  "staged h \<Longrightarrow> step c (h, w) = Inr (h', w') \<Longrightarrow>
   staged h' \<and> names h' = names h \<and> publish_ok w' = publish_ok w \<and>
   (c \<noteq> OnCommit \<longrightarrow> bus w' = bus w)"
proof (cases c)
  case (Do e)
  assume "staged h" "step c (h, w) = Inr (h', w')"
  with Do staged_run_effect [of h e w h' w'] show ?thesis by simp
next
  case (AddUpdateJob fn p)
  assume "staged h" "step c (h, w) = Inr (h', w')"
  with AddUpdateJob show ?thesis
    by (auto simp: addUpdateJob_def staged_def names_def)
next
  case (OnBlockComplete db)
  assume "staged h" "step c (h, w) = Inr (h', w')"
  with OnBlockComplete staged_onBlockComplete [of h db w h' w'] show ?thesis by simp
next
  case OnCommit
  assume "staged h" "step c (h, w) = Inr (h', w')"
  with OnCommit staged_onCommit [of h w] show ?thesis
    by (cases "onCommit (h, w)") auto
qed

lemma staged_run_hooks:
  "staged h \<Longrightarrow> run_hooks cs (h, w) = Inr (h', w') \<Longrightarrow>
   staged h' \<and> names h' = names h \<and> publish_ok w' = publish_ok w \<and>
   (OnCommit \<notin> set cs \<longrightarrow> bus w' = bus w)"
proof (induction cs arbitrary: h w)
  case Nil
  then show ?case by simp
next
  case (Cons c cs)
  from Cons.prems obtain h1 w1 where 1: "step c (h, w) = Inr (h1, w1)"
    and 2: "run_hooks cs (h1, w1) = Inr (h', w')"
    by (auto split: sum.splits)
  from staged_step [OF Cons.prems(1) 1] Cons.IH [OF _ 2] show ?case by auto
qed


lemma reversible_run_effects:
  "run_effects es (h, w) = Inr (h', w') \<Longrightarrow> reversible h' = reversible h"
proof (induction es arbitrary: h w)
  case Nil
  then show ?case by simp
next
  case (Cons e es)
  from Cons.prems obtain h1 w1 where 1: "run_effect e (h, w) = Inr (h1, w1)"
    and 2: "run_effects es (h1, w1) = Inr (h', w')"
    by (auto split: sum.splits)
  from 1 have "reversible h1 = reversible h"
    by (cases e)
       (auto simp: pushNotificiation_def processNotificationQueue_def Let_def split: if_splits)
  with Cons.IH [OF 2] show ?case by simp
qed

lemma reversible_run_jobs:
  "run_jobs fns (h, w) = Inr (h', w') \<Longrightarrow> reversible h' = reversible h"
proof (induction fns arbitrary: h w)
  case Nil
  then show ?case by simp
next
  case (Cons fn fns)
  from Cons.prems obtain h1 w1 where 1: "run_effects fn (h, w) = Inr (h1, w1)"
    and 2: "run_jobs fns (h1, w1) = Inr (h', w')"
    by (auto split: sum.splits)
  from reversible_run_effects [OF 1] Cons.IH [OF 2] show ?case by simp
qed

lemma gated_run_effects:
  "\<not> reversible h \<Longrightarrow> run_effects es (h, w) = Inr (h', w') \<Longrightarrow>
   notificationJobs h' = notificationJobs h \<and> notificationQueue h' = notificationQueue h \<and>
   bus w' = bus w"
proof (induction es arbitrary: h w)
  case Nil
  then show ?case by simp
next
  case (Cons e es)
  from Cons.prems obtain h1 w1 where 1: "run_effect e (h, w) = Inr (h1, w1)"
    and 2: "run_effects es (h1, w1) = Inr (h', w')"
    by (auto split: sum.splits)
  from 1 Cons.prems(1)
  have "\<not> reversible h1 \<and> notificationJobs h1 = notificationJobs h \<and>
        notificationQueue h1 = notificationQueue h \<and> bus w1 = bus w"
    by (cases e) (auto simp: pushNotificiation_def)
  with Cons.IH [OF _ 2] show ?case by simp
qed

lemma gated_run_jobs:
  "\<not> reversible h \<Longrightarrow> run_jobs fns (h, w) = Inr (h', w') \<Longrightarrow>
   notificationJobs h' = notificationJobs h \<and> notificationQueue h' = notificationQueue h \<and>
   bus w' = bus w"
proof (induction fns arbitrary: h w)
  case Nil
  then show ?case by simp
next
  case (Cons fn fns)
  from Cons.prems obtain h1 w1 where 1: "run_effects fn (h, w) = Inr (h1, w1)"
    and 2: "run_jobs fns (h1, w1) = Inr (h', w')"
    by (auto split: sum.splits)
  from reversible_run_effects [OF 1] gated_run_effects [OF Cons.prems(1) 1]
    Cons.IH [OF _ 2] Cons.prems(1)
  show ?case by simp
qed

lemma onBlockComplete_Inr:
  assumes "onBlockComplete db (h, w) = Inr s'"
  obtains h1 w1 where
    "run_jobs (map snd (queue (updateQueue h)))
       (h\<lparr>reversible := lastIrreversibleBlock db < currentBlock db\<rparr>, w) = Inr (h1, w1)"
    and "s' = (h1\<lparr>updateQueue := (updateQueue h)\<lparr>isPaused := True, queue := []\<rparr>,
                  updateJobs := []\<rparr>, w1)"
  using assms
  by (cases "run_jobs (map snd (queue (updateQueue h)))
       (h\<lparr>reversible := lastIrreversibleBlock db < currentBlock db\<rparr>, w)")
     (auto simp: onBlockComplete_run_jobs)

text \<open>
  Claim C1. In every state that a handler reaches from its constructor through hooks
  that return: the notification queue is paused and holds exactly the staged jobs, in
  the order \<open>pushNotificiation\<close> staged them (a push while the flag is set appends one
  job); whatever hooks run from there, as long as \<open>onCommit\<close> is not among them, the
  bus is unchanged and the queue stays paused, so nothing staged is published before
  \<open>onCommit\<close> (which the receiver calls after the block's transaction has committed);
  \<open>onCommit\<close> then publishes the staged jobs one after the other in the order they
  were staged (a job whose publication fails only logs a warning), and leaves the
  staged list and the queue empty and the queue paused.
\<close>

theorem notifications_released_on_commit:
  assumes "AtomicMarketHandler_new chain reader account = Inr h0"
    and "run_hooks cs (h0, w0) = Inr (h, w)"
  shows "isPaused (notificationQueue h) \<and>
    map snd (queue (notificationQueue h)) = notificationJobs h \<and>
    (\<forall>b tx p n d.
       notificationJobs (fst (pushNotificiation b tx p n d (h, w))) =
         notificationJobs h @
           (if reversible h
            then [\<lparr>n_block = b, n_tx = tx, n_prefix = p, n_name = n, n_data = d\<rparr>] else [])) \<and>
    (\<forall>cs' s'. OnCommit \<notin> set cs' \<longrightarrow> run_hooks cs' (h, w) = Inr s' \<longrightarrow>
       bus (snd s') = bus w \<and> isPaused (notificationQueue (fst s'))) \<and>
    bus (snd (onCommit (h, w))) =
      bus w @ map (message h) (filter (delivered h w) (notificationJobs h)) \<and>
    notificationJobs (fst (onCommit (h, w))) = [] \<and>
    queue (notificationQueue (fst (onCommit (h, w)))) = [] \<and>
    isPaused (notificationQueue (fst (onCommit (h, w))))"
proof -
  have s: "staged h"
    using staged_run_hooks [OF staged_new [OF assms(1)] assms(2)] by simp
  have 1: "isPaused (notificationQueue h)"
    and 2: "map snd (queue (notificationQueue h)) = notificationJobs h"
    using s by (simp_all add: staged_def comp_def)
  have 3: "notificationJobs (fst (pushNotificiation b tx p n d (h, w))) =
         notificationJobs h @
           (if reversible h
            then [\<lparr>n_block = b, n_tx = tx, n_prefix = p, n_name = n, n_data = d\<rparr>] else [])"
    for b tx p n d
    using staged_pushNotificiation [OF s, of b tx p n d w]
    by (cases "pushNotificiation b tx p n d (h, w)") simp
  have 4: "bus (snd s') = bus w \<and> isPaused (notificationQueue (fst s'))"
    if "OnCommit \<notin> set cs'" and "run_hooks cs' (h, w) = Inr s'" for cs' s'
    using staged_run_hooks [OF s, of cs' w "fst s'" "snd s'"] that
    by (simp add: staged_def)
  from staged_onCommit [OF s, of w] 1 2 3 4 show ?thesis
    by (simp add: staged_def)
qed

theorem notifications_released_on_commit_witness:
  "AtomicMarketHandler_new ''wax'' ''atomic-1'' (JStr ''atomicmarket'') = Inr ex_handler \<and>
   run_hooks ex_two_blocks (ex_handler, ex_world) =
     Inr (ex_pending, ex_world\<lparr>database := [''sale 5 sold'']\<rparr>) \<and>
   bus (ex_world\<lparr>database := [''sale 5 sold'']\<rparr>) = [] \<and>
   bus (snd (onCommit (ex_pending, ex_world\<lparr>database := [''sale 5 sold'']\<rparr>))) =
     [(''eosio-contract-api:wax:atomic-1:atomicmarket:atomicmarket:sales'', payload ex_created),
      (''eosio-contract-api:wax:atomic-1:atomicmarket:atomicmarket:sales'', payload ex_changed)] \<and>
   notificationJobs (fst (onCommit (ex_pending, ex_world\<lparr>database := [''sale 5 sold'']\<rparr>))) = []"
proof -
  let ?w = "ex_world\<lparr>database := [''sale 5 sold'']\<rparr>"
  have 1: "AtomicMarketHandler_new ''wax'' ''atomic-1'' (JStr ''atomicmarket'') = Inr ex_handler"
    by (simp add: AtomicMarketHandler_new_def ex_handler_def pause_def PQueue_new_def)
  have 2: "run_hooks ex_two_blocks (ex_handler, ex_world) = Inr (ex_pending, ?w)"
    by (simp add: ex_two_blocks_def ex_handler_def ex_world_def ex_pending_def ex_push_def
        onBlockComplete_def onCommit_def processNotificationQueue_def pushNotificiation_def
        addUpdateJob_def add_def start_def pause_def Let_def processUpdateQueue.simps)
  have 3: "bus ?w = []"
    by (simp add: ex_world_def)
  from notifications_released_on_commit [OF 1 2]
  have "bus (snd (onCommit (ex_pending, ?w))) =
      bus ?w @ map (message ex_pending) (filter (delivered ex_pending ?w) (notificationJobs ex_pending))"
    and 5: "notificationJobs (fst (onCommit (ex_pending, ?w))) = []"
    by blast+
  then have 4: "bus (snd (onCommit (ex_pending, ?w))) =
     [(''eosio-contract-api:wax:atomic-1:atomicmarket:atomicmarket:sales'', payload ex_created),
      (''eosio-contract-api:wax:atomic-1:atomicmarket:atomicmarket:sales'', payload ex_changed)]"
    by (simp add: ex_world_def ex_pending_def ex_handler_def message_def delivered_def
        channelName_def ex_created_def ex_changed_def)
  from 1 2 3 4 5 show ?thesis by blast
qed

section \<open>The reversibility gate\<close>

text \<open>
  While the handler's flag is not set, \<open>pushNotificiation\<close> changes nothing: no job is
  staged and nothing is published. The flag is not set after construction.
  \<open>onBlockComplete\<close> sets it to \<open>db.currentBlock > db.lastIrreversibleBlock\<close> before the
  update jobs drain, and the jobs leave it alone: the pushes of the update jobs of a
  block that is not reversible stage nothing and publish nothing.
\<close>

lemma push_gated_by_handler_flag:
  "(\<not> reversible h \<longrightarrow> pushNotificiation block tx prefix name data (h, w) = (h, w)) \<and>
   (\<forall>h0 :: 'db AtomicMarketHandler.
      AtomicMarketHandler_new chain reader account = Inr h0 \<longrightarrow> \<not> reversible h0) \<and>
   (\<forall>s'. onBlockComplete db (h, w) = Inr s' \<longrightarrow>
      reversible (fst s') = (lastIrreversibleBlock db < currentBlock db)) \<and>
   (currentBlock db \<le> lastIrreversibleBlock db \<longrightarrow>
      (\<forall>s'. onBlockComplete db (h, w) = Inr s' \<longrightarrow>
         notificationJobs (fst s') = notificationJobs h \<and>
         notificationQueue (fst s') = notificationQueue h \<and> bus (snd s') = bus w))"
proof (intro conjI allI impI)
  assume "\<not> reversible h"
  then show "pushNotificiation block tx prefix name data (h, w) = (h, w)"
    by (simp add: pushNotificiation_def)
next
  fix h0 :: "'db AtomicMarketHandler"
  assume "AtomicMarketHandler_new chain reader account = Inr h0"
  then show "\<not> reversible h0"
    by (auto simp: AtomicMarketHandler_new_def split: jsval.splits)
next
  fix s'
  assume "onBlockComplete db (h, w) = Inr s'"
  then show "reversible (fst s') = (lastIrreversibleBlock db < currentBlock db)"
    by (elim onBlockComplete_Inr) (auto dest: reversible_run_jobs)
next
  fix s'
  assume le: "currentBlock db \<le> lastIrreversibleBlock db"
    and r: "onBlockComplete db (h, w) = Inr s'"
  from r obtain h1 w1 where
    1: "run_jobs (map snd (queue (updateQueue h)))
       (h\<lparr>reversible := lastIrreversibleBlock db < currentBlock db\<rparr>, w) = Inr (h1, w1)"
    and 2: "s' = (h1\<lparr>updateQueue := (updateQueue h)\<lparr>isPaused := True, queue := []\<rparr>,
                  updateJobs := []\<rparr>, w1)"
    by (rule onBlockComplete_Inr)
  from le gated_run_jobs [OF _ 1] 2
  show "notificationJobs (fst s') = notificationJobs h"
    and "notificationQueue (fst s') = notificationQueue h"
    and "bus (snd s') = bus w"
    by simp_all
qed

lemma push_gated_by_handler_flag_example:
  "\<not> reversible ex_job_pending \<and>
   pushNotificiation ex_block JNull ''sales'' ''create'' (Some (JObj [(''sale_id'', JNum 5)]))
     (ex_job_pending, ex_world) = (ex_job_pending, ex_world) \<and>
   AtomicMarketHandler_new ''wax'' ''atomic-1'' (JStr ''atomicmarket'') = Inr ex_handler \<and>
   \<not> reversible ex_handler \<and>
   currentBlock ex_late \<le> lastIrreversibleBlock ex_late \<and>
   onBlockComplete ex_late (ex_job_pending, ex_world) =
     Inr (ex_handler, ex_world\<lparr>database := [''sale 5 sold'']\<rparr>) \<and>
   reversible ex_handler = (lastIrreversibleBlock ex_late < currentBlock ex_late) \<and>
   notificationJobs ex_handler = notificationJobs ex_job_pending \<and>
   bus (ex_world\<lparr>database := [''sale 5 sold'']\<rparr>) = bus ex_world"
proof -
  let ?w = "ex_world\<lparr>database := [''sale 5 sold'']\<rparr>"
  note t = push_gated_by_handler_flag [of ex_job_pending ex_block JNull "''sales''" "''create''"
      "Some (JObj [(''sale_id'', JNum 5)])" ex_world "''wax''" "''atomic-1''" "JStr ''atomicmarket''" ex_late]
  have 1: "\<not> reversible ex_job_pending"
    by (simp add: ex_job_pending_def ex_handler_def)
  have 2: "AtomicMarketHandler_new ''wax'' ''atomic-1'' (JStr ''atomicmarket'') = Inr ex_handler"
    by (simp add: AtomicMarketHandler_new_def ex_handler_def pause_def PQueue_new_def)
  have 3: "currentBlock ex_late \<le> lastIrreversibleBlock ex_late"
    by (simp add: ex_late_def)
  have 4: "onBlockComplete ex_late (ex_job_pending, ex_world) = Inr (ex_handler, ?w)"
    by (simp add: ex_job_pending_def ex_handler_def ex_world_def ex_late_def ex_push_def
        onBlockComplete_def pushNotificiation_def start_def pause_def Let_def
        processUpdateQueue.simps)
  from t 1 have 5: "pushNotificiation ex_block JNull ''sales'' ''create'' (Some (JObj [(''sale_id'', JNum 5)]))
     (ex_job_pending, ex_world) = (ex_job_pending, ex_world)"
    by blast
  from t 2 have 6: "\<not> reversible ex_handler"
    by blast
  from t 4 have 7: "reversible ex_handler = (lastIrreversibleBlock ex_late < currentBlock ex_late)"
    by fastforce
  from t 3 4 have 8: "notificationJobs ex_handler = notificationJobs ex_job_pending"
    and 9: "bus ?w = bus ex_world"
    by fastforce+
  from 1 2 3 4 5 6 7 8 9 show ?thesis by blast
qed

text \<open>
  Claim C2. The gate is meant to keep the notifications of a block that is not
  reversible off the bus, and it does so for the pushes of the block's update jobs. A
  push that a hook makes before the block's \<open>onBlockComplete\<close> meets the flag of the
  block before. Block 10 (last irreversible block 5) sets the flag; a hook of block
  11, whose last irreversible block is 20, then pushes a notification: it is staged,
  and \<open>onCommit\<close> of block 11 publishes it. The other way round, on a handler whose
  flag is not set, the push of a hook of the reversible block 11 (last irreversible
  block 6) is dropped and nothing is published.
\<close>

theorem stale_flag_gates_hook_pushes:
  "AtomicMarketHandler_new ''wax'' ''atomic-1'' (JStr ''atomicmarket'') = Inr ex_handler \<and>
   run_hooks [OnBlockComplete \<lparr>currentBlock = 10, lastIrreversibleBlock = 5\<rparr>, OnCommit]
     (ex_handler, ex_world) = Inr (ex_handler\<lparr>reversible := True\<rparr>, ex_world) \<and>
   currentBlock ex_late = block_num ex_block \<and>
   block_num ex_block \<le> lastIrreversibleBlock ex_late \<and>
   notificationJobs
     (fst (pushNotificiation ex_block JNull ''sales'' ''create''
            (Some (JObj [(''sale_id'', JNum 5)]))
            (ex_handler\<lparr>reversible := True\<rparr>, ex_world))) = [ex_created] \<and>
   map_sum (\<lambda>x. x) (\<lambda>s. bus (snd s))
     (run_hooks [Do (ex_push ex_created), OnBlockComplete ex_late, OnCommit]
        (ex_handler\<lparr>reversible := True\<rparr>, ex_world)) =
     Inr [(''eosio-contract-api:wax:atomic-1:atomicmarket:atomicmarket:sales'',
           JObj [(''transaction'', JNull),
                 (''block'', JObj [(''block_num'', JNum 11), (''block_id'', JStr ''0000000b5f3a'')]),
                 (''action'', JStr ''create''),
                 (''data'', JObj [(''sale_id'', JNum 5)])])] \<and>
   \<not> reversible ex_handler \<and>
   lastIrreversibleBlock \<lparr>currentBlock = 11, lastIrreversibleBlock = 6\<rparr> < block_num ex_block \<and>
   map_sum (\<lambda>x. x) (\<lambda>s. bus (snd s))
     (run_hooks [Do (ex_push ex_created),
                 OnBlockComplete \<lparr>currentBlock = 11, lastIrreversibleBlock = 6\<rparr>, OnCommit]
        (ex_handler, ex_world)) = Inr []"
  by (simp add: AtomicMarketHandler_new_def ex_handler_def ex_world_def ex_late_def
      ex_block_def ex_created_def ex_push_def
      onBlockComplete_def onCommit_def processNotificationQueue_def pushNotificiation_def
      run_notification_def channelName_def payload_def
      add_def start_def pause_def PQueue_new_def Let_def processUpdateQueue.simps)

section \<open>Channel and payload of a notification\<close>

text \<open>
  Claim C6, as stated, fails for the payload: \<open>data\<close> has type \<open>any\<close>, and when it is
  \<open>undefined\<close> the record that \<open>JSON.stringify\<close> serialises has no field \<open>data\<close>. The
  message published then has the three fields \<open>transaction\<close>, \<open>block\<close> and \<open>action\<close>.
\<close>

theorem undefined_data_left_out_counterexample:
  "reversible (ex_handler\<lparr>reversible := True\<rparr>) \<and>
   bus (snd (onCommit
     (pushNotificiation ex_block JNull ''sales'' ''create'' None
        (ex_handler\<lparr>reversible := True\<rparr>, ex_world)))) =
     [(''eosio-contract-api:wax:atomic-1:atomicmarket:atomicmarket:sales'',
       JObj [(''transaction'', JNull),
             (''block'', JObj [(''block_num'', JNum 11), (''block_id'', JStr ''0000000b5f3a'')]),
             (''action'', JStr ''create'')])]"
  by (simp add: ex_handler_def ex_world_def ex_block_def
      onCommit_def processNotificationQueue_def pushNotificiation_def
      run_notification_def channelName_def payload_def
      add_def start_def pause_def Let_def)

text \<open>
  Claim C6, amended. In every state that a handler constructed with chain name \<open>chain\<close>,
  reader name \<open>reader\<close> and account \<open>account\<close> reaches: a push while the flag is set
  stages a job with exactly the arguments of the push, and every message that
  \<open>onCommit\<close> puts on the bus comes from one staged job, goes to the channel
  \<open>eosio-contract-api:chain:reader:atomicmarket:account:prefix\<close> and is the record with
  the fields \<open>transaction\<close>, \<open>block\<close> (the \<open>block_num\<close> and \<open>block_id\<close> of the block
  pushed) and \<open>action\<close>, followed by the field \<open>data\<close> unless the data pushed is
  \<open>undefined\<close>, and no other field.
\<close>

theorem notification_channel_and_payload:
  assumes "AtomicMarketHandler_new chain reader account = Inr h0"
    and "run_hooks cs (h0, w0) = Inr (h, w)"
  shows "account = JStr (atomicmarket_account h) \<and> chain_name h = chain \<and>
    reader_name h = reader \<and>
    (reversible h \<longrightarrow>
       notificationJobs (fst (pushNotificiation block tx prefix name data (h, w))) =
         notificationJobs h @
           [\<lparr>n_block = block, n_tx = tx, n_prefix = prefix, n_name = name, n_data = data\<rparr>]) \<and>
    bus (snd (onCommit (h, w))) =
      bus w @
      map (\<lambda>n. (''eosio-contract-api:'' @ chain @ '':'' @ reader @ '':atomicmarket:'' @
                  atomicmarket_account h @ '':'' @ n_prefix n,
                JObj ([(''transaction'', n_tx n),
                       (''block'', JObj [(''block_num'', JNum (block_num (n_block n))),
                                         (''block_id'', JStr (block_id (n_block n)))]),
                       (''action'', JStr (n_name n))] @
                      (case n_data n of None \<Rightarrow> [] | Some d \<Rightarrow> [(''data'', d)]))))
        (filter (delivered h w) (notificationJobs h))"
proof -
  have s0: "staged h0" by (rule staged_new [OF assms(1)])
  from staged_run_hooks [OF s0 assms(2)] have s: "staged h" and n: "names h = names h0"
    by simp_all
  from assms(1) have n0: "account = JStr (atomicmarket_account h0)"
      "chain_name h0 = chain" "reader_name h0 = reader"
    by (auto simp: AtomicMarketHandler_new_def split: jsval.splits)
  with n have 1: "account = JStr (atomicmarket_account h)" "chain_name h = chain"
      "reader_name h = reader"
    by (simp_all add: names_def)
  have 2: "notificationJobs (fst (pushNotificiation block tx prefix name data (h, w))) =
         notificationJobs h @
           [\<lparr>n_block = block, n_tx = tx, n_prefix = prefix, n_name = name, n_data = data\<rparr>]"
    if "reversible h"
    using staged_pushNotificiation [OF s, of block tx prefix name data w] that
    by (cases "pushNotificiation block tx prefix name data (h, w)") simp
  have 3: "message h = (\<lambda>n. (''eosio-contract-api:'' @ chain @ '':'' @ reader @ '':atomicmarket:'' @
                  atomicmarket_account h @ '':'' @ n_prefix n,
                JObj ([(''transaction'', n_tx n),
                       (''block'', JObj [(''block_num'', JNum (block_num (n_block n))),
                                         (''block_id'', JStr (block_id (n_block n)))]),
                       (''action'', JStr (n_name n))] @
                      (case n_data n of None \<Rightarrow> [] | Some d \<Rightarrow> [(''data'', d)]))))"
    using 1 by (simp add: fun_eq_iff message_def channelName_def payload_def)
  from staged_onCommit [OF s, of w] 1 2 show ?thesis
    by (simp add: 3)
qed

theorem notification_channel_and_payload_witness:
  "AtomicMarketHandler_new ''wax'' ''atomic-1'' (JStr ''atomicmarket'') = Inr ex_handler \<and>
   run_hooks ex_two_blocks (ex_handler, ex_world) =
     Inr (ex_pending, ex_world\<lparr>database := [''sale 5 sold'']\<rparr>) \<and>
   reversible ex_pending \<and>
   notificationJobs
     (fst (pushNotificiation ex_block JNull ''auctions'' ''create'' None
            (ex_pending, ex_world\<lparr>database := [''sale 5 sold'']\<rparr>))) =
     [ex_created, ex_changed,
      \<lparr>n_block = ex_block, n_tx = JNull, n_prefix = ''auctions'', n_name = ''create'',
       n_data = None\<rparr>] \<and>
   bus (snd (onCommit (ex_pending, ex_world\<lparr>database := [''sale 5 sold'']\<rparr>))) =
     [(''eosio-contract-api:wax:atomic-1:atomicmarket:atomicmarket:sales'',
       JObj [(''transaction'', JNull),
             (''block'', JObj [(''block_num'', JNum 11), (''block_id'', JStr ''0000000b5f3a'')]),
             (''action'', JStr ''create''),
             (''data'', JObj [(''sale_id'', JNum 5)])]),
      (''eosio-contract-api:wax:atomic-1:atomicmarket:atomicmarket:sales'',
       JObj [(''transaction'', JObj [(''id'', JStr ''ab12'')]),
             (''block'', JObj [(''block_num'', JNum 11), (''block_id'', JStr ''0000000b5f3a'')]),
             (''action'', JStr ''state_change''),
             (''data'', JObj [(''sale_id'', JNum 5), (''state'', JNum 3)])])]"
proof -
  let ?w = "ex_world\<lparr>database := [''sale 5 sold'']\<rparr>"
  have 1: "AtomicMarketHandler_new ''wax'' ''atomic-1'' (JStr ''atomicmarket'') = Inr ex_handler"
    by (simp add: AtomicMarketHandler_new_def ex_handler_def pause_def PQueue_new_def)
  have 2: "run_hooks ex_two_blocks (ex_handler, ex_world) = Inr (ex_pending, ?w)"
    by (simp add: ex_two_blocks_def ex_handler_def ex_world_def ex_pending_def ex_push_def
        onBlockComplete_def onCommit_def processNotificationQueue_def pushNotificiation_def
        addUpdateJob_def add_def start_def pause_def Let_def processUpdateQueue.simps)
  have 3: "reversible ex_pending"
    by (simp add: ex_pending_def)
  note t = notification_channel_and_payload [OF 1 2, of ex_block JNull "''auctions''" "''create''" None]
  from t 3 have 4: "notificationJobs
     (fst (pushNotificiation ex_block JNull ''auctions'' ''create'' None (ex_pending, ?w))) =
     [ex_created, ex_changed,
      \<lparr>n_block = ex_block, n_tx = JNull, n_prefix = ''auctions'', n_name = ''create'',
       n_data = None\<rparr>]"
    by (simp add: ex_pending_def)
  from t have 5: "bus (snd (onCommit (ex_pending, ?w))) =
     [(''eosio-contract-api:wax:atomic-1:atomicmarket:atomicmarket:sales'',
       JObj [(''transaction'', JNull),
             (''block'', JObj [(''block_num'', JNum 11), (''block_id'', JStr ''0000000b5f3a'')]),
             (''action'', JStr ''create''),
             (''data'', JObj [(''sale_id'', JNum 5)])]),
      (''eosio-contract-api:wax:atomic-1:atomicmarket:atomicmarket:sales'',
       JObj [(''transaction'', JObj [(''id'', JStr ''ab12'')]),
             (''block'', JObj [(''block_num'', JNum 11), (''block_id'', JStr ''0000000b5f3a'')]),
             (''action'', JStr ''state_change''),
             (''data'', JObj [(''sale_id'', JNum 5), (''state'', JNum 3)])])]"
    by (simp add: ex_pending_def ex_handler_def ex_world_def delivered_def ex_created_def
        ex_changed_def ex_block_def)
  from 1 2 3 4 5 show ?thesis by blast
qed

section \<open>Deserialization worker\<close>

text \<open>The \<open>data\<close> of a request: a \<open>Uint8Array\<close> or a string of hexadecimal digits.\<close>

datatype input = Bytes "byte list" | Hex string

text \<open>\<open>data.length\<close>: the bytes of an array, the characters of a string.\<close>

fun input_length :: "input \<Rightarrow> nat" where
  "input_length (Bytes bs) = length bs"
| "input_length (Hex s) = length s"

definition hex_digit :: "char \<Rightarrow> nat option" where
  "hex_digit c =
     (let n = (of_char c :: nat) in
      if 48 \<le> n \<and> n \<le> 57 then Some (n - 48)
      else if 97 \<le> n \<and> n \<le> 102 then Some (n - 87)
      else if 65 \<le> n \<and> n \<le> 70 then Some (n - 55)
      else None)"

text \<open>
  \<open>Buffer.from(s, 'hex')\<close>: one byte for every two digits, up to the first pair that is
  not two hexadecimal digits; a last single character is dropped.
\<close>

fun from_hex :: "string \<Rightarrow> byte list" where
  "from_hex (a # b # rest) =
     (case (hex_digit a, hex_digit b) of
        (Some h, Some l) \<Rightarrow> of_nat (16 * h + l) # from_hex rest
      | _ \<Rightarrow> [])"
| "from_hex _ = []"

text \<open>
  What a decoder returns. The state-history ABI declares \<open>table_delta[]\<close> as an array
  of variants, each a tag and a record with the table's \<open>name\<close> and its \<open>rows\<close>, a row
  having a \<open>present\<close> flag and its \<open>data\<close>, still encoded; every other value is \<open>Plain\<close>.
\<close>

record 'a row =
  row_present :: bool
  row_data :: 'a

record 'a table_delta =
  delta_name :: string
  delta_rows :: "'a row list"

datatype decoded = Plain jsval | TableDeltas "(string \<times> input table_delta) list"

text \<open>What the worker posts back: \<open>null\<close>, a decoded value, or deltas with decoded rows.\<close>

datatype posted = PostedNull | Posted decoded | PostedDeltas "(string \<times> decoded table_delta) list"

text \<open>
  The worker's options and its two decoders, neither of which is among the source
  files: \<open>hex_to_json\<close> and \<open>bin_to_json\<close> of the native abieos binding, and \<open>eosjs\<close>, the
  portable \<open>Serialize.getType(types, type).deserialize\<close> run on a \<open>SerialBuffer\<close> over
  the bytes, which returns the value and the buffer's \<open>readPos\<close> (the bytes consumed)
  or throws.
\<close>

record worker =
  ds_experimental :: bool
  abieosSupported :: bool
  hex_to_json :: "string \<Rightarrow> string \<Rightarrow> exn + decoded"
  bin_to_json :: "string \<Rightarrow> byte list \<Rightarrow> exn + decoded"
  eosjs :: "string \<Rightarrow> byte list \<Rightarrow> exn + (decoded \<times> nat)"

definition deserialize :: "worker \<Rightarrow> string \<Rightarrow> input \<Rightarrow> exn + decoded" where
  "deserialize wk type data =
     (if ds_experimental wk \<and> abieosSupported wk then
        (case data of Hex s \<Rightarrow> hex_to_json wk type s | Bytes bs \<Rightarrow> bin_to_json wk type bs)
      else
        let dataArray = (case data of Hex s \<Rightarrow> from_hex s | Bytes bs \<Rightarrow> bs) in
        case eosjs wk type dataArray of
          Inl e \<Rightarrow> Inl e
        | Inr (result, readPos) \<Rightarrow>
            if readPos \<noteq> input_length data
            then Inl (Error (''Deserialization error: '' @ type))
            else Inr result)"

fun decode_rows :: "worker \<Rightarrow> string \<Rightarrow> input row list \<Rightarrow> exn + decoded row list" where
  "decode_rows wk name [] = Inr []"
| "decode_rows wk name (r # rs) =
     (case deserialize wk name (row_data r) of
        Inl e \<Rightarrow> Inl e
      | Inr v \<Rightarrow>
          (case decode_rows wk name rs of
             Inl e \<Rightarrow> Inl e
           | Inr rs' \<Rightarrow> Inr (\<lparr>row_present = row_present r, row_data = v\<rparr> # rs')))"

fun decode_deltas ::
  "worker \<Rightarrow> (string \<times> input table_delta) list \<Rightarrow> exn + (string \<times> decoded table_delta) list" where
  "decode_deltas wk [] = Inr []"
| "decode_deltas wk (d # ds) =
     (if fst d = ''table_delta_v0'' then
        (case decode_rows wk (delta_name (snd d)) (delta_rows (snd d)) of
           Inl e \<Rightarrow> Inl e
         | Inr rows \<Rightarrow>
             (case decode_deltas wk ds of
                Inl e \<Rightarrow> Inl e
              | Inr ds' \<Rightarrow>
                  Inr ((fst d, \<lparr>delta_name = delta_name (snd d), delta_rows = rows\<rparr>) # ds')))
      else Inl (Error (''Unsupported table delta type received '' @ fst d)))"

text \<open>
  The handler of a request \<open>{type, data}\<close>; \<open>None\<close> is \<open>data = null\<close>. A decoder that gives
  for \<open>table_delta[]\<close> a value that is no array of deltas contradicts the ABI; the loop
  over it is reported as the \<open>TypeError\<close> that a value which cannot be iterated raises.
\<close>

definition on_message :: "worker \<Rightarrow> string \<Rightarrow> input option \<Rightarrow> exn + posted" where
  "on_message wk type data =
     (case data of
        None \<Rightarrow> Inr PostedNull
      | Some d \<Rightarrow>
          (case deserialize wk type d of
             Inl e \<Rightarrow> Inl e
           | Inr v \<Rightarrow>
               if type = ''table_delta[]'' then
                 (case v of
                    TableDeltas ds \<Rightarrow>
                      (case decode_deltas wk ds of
                         Inl e \<Rightarrow> Inl e
                       | Inr ds' \<Rightarrow> Inr (PostedDeltas ds'))
                  | Plain x \<Rightarrow> Inl (Error ''TypeError: data is not iterable''))
               else Inr (Posted v)))"

text \<open>
  A worker to run the model on: no native decoder, and a portable decoder that knows
  \<open>uint8\<close> (one byte) and reads every \<open>table_delta[]\<close> as the deltas \<open>ds\<close>. Of the two
  lists of deltas, the first has a \<open>table_delta_v0\<close> of table \<open>uint8\<close> with two rows of
  one byte each; the second a \<open>table_delta_v0\<close> whose one row has two bytes, and then
  a \<open>table_delta_v1\<close>.
\<close>

definition ex_deltas_v0 :: "(string \<times> input table_delta) list" where
  "ex_deltas_v0 =
     [(''table_delta_v0'',
       \<lparr>delta_name = ''uint8'',
        delta_rows = [\<lparr>row_present = True, row_data = Bytes [7]\<rparr>,
                      \<lparr>row_present = False, row_data = Bytes [9]\<rparr>]\<rparr>)]"

definition ex_deltas_v1 :: "(string \<times> input table_delta) list" where
  "ex_deltas_v1 =
     [(''table_delta_v0'',
       \<lparr>delta_name = ''uint8'',
        delta_rows = [\<lparr>row_present = True, row_data = Bytes [1, 2]\<rparr>]\<rparr>),
      (''table_delta_v1'', \<lparr>delta_name = ''uint8'', delta_rows = []\<rparr>)]"

definition ex_eosjs ::
  "(string \<times> input table_delta) list \<Rightarrow> string \<Rightarrow> byte list \<Rightarrow> exn + (decoded \<times> nat)" where
  "ex_eosjs ds type bs =
     (if type = ''uint8'' then
        (case bs of
           [] \<Rightarrow> Inl (Error ''Read past end of buffer'')
         | b # rest \<Rightarrow> Inr (Plain (JNum (uint b)), 1))
      else if type = ''table_delta[]'' then Inr (TableDeltas ds, length bs)
      else Inl (Error (''Unknown type: '' @ type)))"

definition ex_worker :: "(string \<times> input table_delta) list \<Rightarrow> worker" where
  "ex_worker ds =
     \<lparr>ds_experimental = False, abieosSupported = False,
      hex_to_json = (\<lambda>t s. Inl (Error ''abieos not loaded'')),
      bin_to_json = (\<lambda>t bs. Inl (Error ''abieos not loaded'')),
      eosjs = ex_eosjs ds\<rparr>"

definition ex_posted :: "(string \<times> decoded table_delta) list" where
  "ex_posted =
     [(''table_delta_v0'',
       \<lparr>delta_name = ''uint8'',
        delta_rows = [\<lparr>row_present = True, row_data = Plain (JNum 7)\<rparr>,
                      \<lparr>row_present = False, row_data = Plain (JNum 9)\<rparr>]\<rparr>)]"

definition ex_delta_v1 :: "string \<times> input table_delta" where
  "ex_delta_v1 = (''table_delta_v1'', \<lparr>delta_name = ''uint8'', delta_rows = []\<rparr>)"

section \<open>The length check of the portable decoder\<close>

lemma deserialize_bytes:
  "\<not> (ds_experimental wk \<and> abieosSupported wk) \<Longrightarrow>
   deserialize wk type (Bytes bs) =
     (case eosjs wk type bs of
        Inl e \<Rightarrow> Inl e
      | Inr (v, n) \<Rightarrow>
          if n = length bs then Inr v else Inl (Error (''Deserialization error: '' @ type)))"
  by (auto simp: deserialize_def split: sum.splits)

lemma deserialize_hex:
  "\<not> (ds_experimental wk \<and> abieosSupported wk) \<Longrightarrow>
   deserialize wk type (Hex s) =
     (case eosjs wk type (from_hex s) of
        Inl e \<Rightarrow> Inl e
      | Inr (v, n) \<Rightarrow>
          if n = length s then Inr v else Inl (Error (''Deserialization error: '' @ type)))"
  by (auto simp: deserialize_def split: sum.splits)

text \<open>
  A \<open>SerialBuffer\<close> throws when it is read past its end, so a decoder consumes at most
  the bytes of the array. With such a decoder the portable backend returns for no
  string but the empty one.
\<close>

lemma from_hex_length: "2 * length (from_hex s) \<le> length s"
  by (induction s rule: from_hex.induct) (auto split: option.splits)

lemma deserialize_hex_never_returns:
  assumes "\<not> (ds_experimental wk \<and> abieosSupported wk)"
    and "\<And>t bs v n. eosjs wk t bs = Inr (v, n) \<Longrightarrow> n \<le> length bs"
    and "s \<noteq> []"
  shows "\<exists>e. deserialize wk type (Hex s) = Inl e"
proof (cases "eosjs wk type (from_hex s)")
  case (Inl e)
  with assms(1) show ?thesis by (simp add: deserialize_hex)
next
  case (Inr p)
  obtain v n where p: "p = (v, n)" by (cases p)
  with Inr assms(2) have "n \<le> length (from_hex s)" by blast
  with from_hex_length [of s] assms(3) have "n \<noteq> length s"
    by (cases s) auto
  with Inr p assms(1) show ?thesis by (simp add: deserialize_hex)
qed

text \<open>
  Claim C4. On a byte array the portable backend returns the decoded value exactly when
  the decoder consumed as many bytes as the array has, and throws the deserialization
  error when it consumed another number (lemma \<open>deserialize_bytes\<close>). On a string the
  bytes consumed are compared with \<open>data.length\<close>, the number of characters of the
  string, which is at least twice the number of bytes decoded from it (lemmas
  \<open>deserialize_hex\<close> and \<open>from_hex_length\<close>). The string \<open>2a\<close> is the one byte 42; a decoder of \<open>uint8\<close> consumes
  this byte, the whole input, and the backend returns 42 for the byte array, but for
  the string it throws the deserialization error.
\<close>

theorem hex_input_compared_with_characters:
  "from_hex ''2a'' = [42] \<and>
   eosjs (ex_worker []) ''uint8'' [42] = Inr (Plain (JNum 42), 1) \<and>
   deserialize (ex_worker []) ''uint8'' (Bytes [42]) = Inr (Plain (JNum 42)) \<and>
   deserialize (ex_worker []) ''uint8'' (Hex ''2a'') =
     Inl (Error ''Deserialization error: uint8'')"
  by (simp add: deserialize_def ex_worker_def ex_eosjs_def hex_digit_def)

section \<open>Table deltas\<close>

text \<open>
  A row, and a delta, as the worker posts it: the row's data is what decoding the
  encoded data against the delta's table gives; the delta is a \<open>table_delta_v0\<close>.
\<close>

definition row_decoded :: "worker \<Rightarrow> string \<Rightarrow> input row \<Rightarrow> decoded row \<Rightarrow> bool" where
  "row_decoded wk name r r' \<longleftrightarrow>
     row_present r' = row_present r \<and> deserialize wk name (row_data r) = Inr (row_data r')"

definition delta_decoded ::
  "worker \<Rightarrow> string \<times> input table_delta \<Rightarrow> string \<times> decoded table_delta \<Rightarrow> bool" where
  "delta_decoded wk d d' \<longleftrightarrow>
     fst d = ''table_delta_v0'' \<and> fst d' = fst d \<and>
     delta_name (snd d') = delta_name (snd d) \<and>
     list_all2 (row_decoded wk (delta_name (snd d))) (delta_rows (snd d)) (delta_rows (snd d'))"

lemma decode_rows_decoded:
  "decode_rows wk name rs = Inr rs' \<Longrightarrow> list_all2 (row_decoded wk name) rs rs'"
  by (induction rs arbitrary: rs') (auto simp: row_decoded_def split: sum.splits)

lemma decode_deltas_decoded:
  "decode_deltas wk ds = Inr ds' \<Longrightarrow> list_all2 (delta_decoded wk) ds ds'"
  by (induction ds arbitrary: ds')
     (auto simp: delta_decoded_def dest: decode_rows_decoded split: sum.splits if_splits)

lemma decode_deltas_unsupported:
  "fst d \<noteq> ''table_delta_v0'' \<Longrightarrow>
   decode_deltas wk (pre @ d # post) =
     (case decode_deltas wk pre of
        Inl e \<Rightarrow> Inl e
      | Inr pre' \<Rightarrow> Inl (Error (''Unsupported table delta type received '' @ fst d)))"
  by (induction pre) (auto split: sum.splits)

lemma decode_deltas_fails:
  "\<exists>d \<in> set ds. fst d \<noteq> ''table_delta_v0'' \<Longrightarrow> \<exists>e. decode_deltas wk ds = Inl e"
proof -
  assume "\<exists>d \<in> set ds. fst d \<noteq> ''table_delta_v0''"
  then obtain d where "d \<in> set ds" and d: "fst d \<noteq> ''table_delta_v0''" by blast
  then obtain pre post where "ds = pre @ d # post" by (auto simp: in_set_conv_decomp)
  with decode_deltas_unsupported [OF d, of wk pre post] show ?thesis
    by (cases "decode_deltas wk pre") auto
qed

lemma decode_rows_first_error:
  "decode_rows wk name rs1 = Inr rs1' \<Longrightarrow> deserialize wk name (row_data r) = Inl e \<Longrightarrow>
   decode_rows wk name (rs1 @ r # rs2) = Inl e"
  by (induction rs1 arbitrary: rs1') (auto split: sum.splits)

lemma decode_rows_error_cases:
  "decode_rows wk name rs = Inl e \<Longrightarrow>
   \<exists>rs1 r rs2 rs1'. rs = rs1 @ r # rs2 \<and> decode_rows wk name rs1 = Inr rs1' \<and>
     deserialize wk name (row_data r) = Inl e"
proof (induction rs)
  case Nil
  then show ?case by simp
next
  case (Cons x xs)
  show ?case
  proof (cases "deserialize wk name (row_data x)")
    case (Inl e')
    with Cons.prems have "e' = e" by simp
    with Inl have "x # xs = [] @ x # xs \<and> decode_rows wk name [] = Inr [] \<and>
        deserialize wk name (row_data x) = Inl e"
      by simp
    then show ?thesis by blast
  next
    case (Inr v)
    with Cons.prems have "decode_rows wk name xs = Inl e"
      by (auto split: sum.splits)
    from Cons.IH [OF this] obtain rs1 r rs2 rs1' where
      "xs = rs1 @ r # rs2" "decode_rows wk name rs1 = Inr rs1'"
      "deserialize wk name (row_data r) = Inl e"
      by blast
    with Inr have "x # xs = (x # rs1) @ r # rs2 \<and>
        decode_rows wk name (x # rs1) = Inr (\<lparr>row_present = row_present x, row_data = v\<rparr> # rs1') \<and>
        deserialize wk name (row_data r) = Inl e"
      by simp
    then show ?thesis by blast
  qed
qed

lemma decode_deltas_first_row_error:
  "decode_deltas wk ds1 = Inr ds1' \<Longrightarrow> fst d = ''table_delta_v0'' \<Longrightarrow>
   decode_rows wk (delta_name (snd d)) (delta_rows (snd d)) = Inl e \<Longrightarrow>
   decode_deltas wk (ds1 @ d # ds2) = Inl e"
  by (induction ds1 arbitrary: ds1') (auto split: sum.splits if_splits)

lemma decode_deltas_error_cases:
  "decode_deltas wk ds = Inl e \<Longrightarrow>
   (\<exists>pre x post pre'. ds = pre @ x # post \<and> fst x \<noteq> ''table_delta_v0'' \<and>
      decode_deltas wk pre = Inr pre' \<and>
      e = Error (''Unsupported table delta type received '' @ fst x)) \<or>
   (\<exists>ds1 d ds2 ds1'. ds = ds1 @ d # ds2 \<and> fst d = ''table_delta_v0'' \<and>
      decode_deltas wk ds1 = Inr ds1' \<and>
      decode_rows wk (delta_name (snd d)) (delta_rows (snd d)) = Inl e)"
proof (induction ds)
  case Nil
  then show ?case by simp
next
  case (Cons y ys)
  show ?case
  proof (cases "fst y = ''table_delta_v0''")
    case False
    with Cons.prems have "y # ys = [] @ y # ys \<and> fst y \<noteq> ''table_delta_v0'' \<and>
        decode_deltas wk [] = Inr [] \<and>
        e = Error (''Unsupported table delta type received '' @ fst y)"
      by simp
    then show ?thesis by blast
  next
    case True
    show ?thesis
    proof (cases "decode_rows wk (delta_name (snd y)) (delta_rows (snd y))")
      case (Inl e')
      with True Cons.prems have "e' = e" by simp
      with Inl True have "y # ys = [] @ y # ys \<and> fst y = ''table_delta_v0'' \<and>
          decode_deltas wk [] = Inr [] \<and>
          decode_rows wk (delta_name (snd y)) (delta_rows (snd y)) = Inl e"
        by simp
      then show ?thesis by blast
    next
      case (Inr rows)
      with True Cons.prems have "decode_deltas wk ys = Inl e"
        by (auto split: sum.splits)
      from Cons.IH [OF this] show ?thesis
      proof
        assume "\<exists>pre x post pre'. ys = pre @ x # post \<and> fst x \<noteq> ''table_delta_v0'' \<and>
          decode_deltas wk pre = Inr pre' \<and>
          e = Error (''Unsupported table delta type received '' @ fst x)"
        then obtain pre x post pre' where "ys = pre @ x # post" "fst x \<noteq> ''table_delta_v0''"
          "decode_deltas wk pre = Inr pre'"
          "e = Error (''Unsupported table delta type received '' @ fst x)"
          by blast
        with True Inr have "y # ys = (y # pre) @ x # post \<and> fst x \<noteq> ''table_delta_v0'' \<and>
          decode_deltas wk (y # pre) =
            Inr ((fst y, \<lparr>delta_name = delta_name (snd y), delta_rows = rows\<rparr>) # pre') \<and>
          e = Error (''Unsupported table delta type received '' @ fst x)"
          by simp
        then show ?thesis by blast
      next
        assume "\<exists>ds1 d ds2 ds1'. ys = ds1 @ d # ds2 \<and> fst d = ''table_delta_v0'' \<and>
          decode_deltas wk ds1 = Inr ds1' \<and>
          decode_rows wk (delta_name (snd d)) (delta_rows (snd d)) = Inl e"
        then obtain ds1 d ds2 ds1' where "ys = ds1 @ d # ds2" "fst d = ''table_delta_v0''"
          "decode_deltas wk ds1 = Inr ds1'"
          "decode_rows wk (delta_name (snd d)) (delta_rows (snd d)) = Inl e"
          by blast
        with True Inr have "y # ys = (y # ds1) @ d # ds2 \<and> fst d = ''table_delta_v0'' \<and>
          decode_deltas wk (y # ds1) =
            Inr ((fst y, \<lparr>delta_name = delta_name (snd y), delta_rows = rows\<rparr>) # ds1') \<and>
          decode_rows wk (delta_name (snd d)) (delta_rows (snd d)) = Inl e"
          by simp
        then show ?thesis by blast
      qed
    qed
  qed
qed

text \<open>
  The two ways a request for table deltas fails once the array is decoded: at the
  delta \<open>x\<close>, the first that is not a \<open>table_delta_v0\<close>, all rows before it decoding; or
  at the row \<open>r\<close> of a \<open>table_delta_v0\<close>, the first row that does not decode, with the
  error \<open>e\<close> of decoding it.
\<close>

definition fails_at_delta ::
  "worker \<Rightarrow> (string \<times> input table_delta) list \<Rightarrow> string \<times> input table_delta \<Rightarrow> bool" where
  "fails_at_delta wk ds x \<longleftrightarrow>
     (\<exists>pre post pre'. ds = pre @ x # post \<and> fst x \<noteq> ''table_delta_v0'' \<and>
        decode_deltas wk pre = Inr pre')"

definition fails_at_row ::
  "worker \<Rightarrow> (string \<times> input table_delta) list \<Rightarrow> input row \<Rightarrow> exn \<Rightarrow> bool" where
  "fails_at_row wk ds r e \<longleftrightarrow>
     (\<exists>ds1 d ds2 ds1' rs1 rs2 rs1'.
        ds = ds1 @ d # ds2 \<and> fst d = ''table_delta_v0'' \<and> decode_deltas wk ds1 = Inr ds1' \<and>
        delta_rows (snd d) = rs1 @ r # rs2 \<and>
        decode_rows wk (delta_name (snd d)) rs1 = Inr rs1' \<and>
        deserialize wk (delta_name (snd d)) (row_data r) = Inl e)"

lemma fails_at_delta_error:
  "fails_at_delta wk ds x \<Longrightarrow>
   decode_deltas wk ds = Inl (Error (''Unsupported table delta type received '' @ fst x))"
  by (auto simp: fails_at_delta_def decode_deltas_unsupported)

lemma fails_at_row_error: "fails_at_row wk ds r e \<Longrightarrow> decode_deltas wk ds = Inl e"
  unfolding fails_at_row_def
  by (metis decode_deltas_first_row_error decode_rows_first_error)

lemma decode_deltas_fails_how:
  assumes "decode_deltas wk ds = Inl e"
  shows "(\<exists>x. fails_at_delta wk ds x \<and>
            e = Error (''Unsupported table delta type received '' @ fst x)) \<or>
         (\<exists>r. fails_at_row wk ds r e)"
  using decode_deltas_error_cases [OF assms]
proof
  assume "\<exists>pre x post pre'. ds = pre @ x # post \<and> fst x \<noteq> ''table_delta_v0'' \<and>
      decode_deltas wk pre = Inr pre' \<and>
      e = Error (''Unsupported table delta type received '' @ fst x)"
  then show ?thesis unfolding fails_at_delta_def by blast
next
  assume "\<exists>ds1 d ds2 ds1'. ds = ds1 @ d # ds2 \<and> fst d = ''table_delta_v0'' \<and>
      decode_deltas wk ds1 = Inr ds1' \<and>
      decode_rows wk (delta_name (snd d)) (delta_rows (snd d)) = Inl e"
  then obtain ds1 d ds2 ds1' where 1: "ds = ds1 @ d # ds2" "fst d = ''table_delta_v0''"
      "decode_deltas wk ds1 = Inr ds1'"
    and 2: "decode_rows wk (delta_name (snd d)) (delta_rows (snd d)) = Inl e"
    by blast
  from decode_rows_error_cases [OF 2] obtain rs1 r rs2 rs1' where
    "delta_rows (snd d) = rs1 @ r # rs2" "decode_rows wk (delta_name (snd d)) rs1 = Inr rs1'"
    "deserialize wk (delta_name (snd d)) (row_data r) = Inl e"
    by blast
  with 1 have "fails_at_row wk ds r e" unfolding fails_at_row_def by blast
  then show ?thesis by blast
qed

text \<open>
  Claim C5, as stated, fails: the deltas are handled in order, and a row of an earlier
  \<open>table_delta_v0\<close> that does not decode ends the request with the deserialization
  error before the \<open>table_delta_v1\<close> behind it is looked at.
\<close>

theorem unsupported_delta_after_failing_row_counterexample:
  "deserialize (ex_worker ex_deltas_v1) ''table_delta[]'' (Bytes [0]) = Inr (TableDeltas ex_deltas_v1) \<and>
   map fst ex_deltas_v1 = [''table_delta_v0'', ''table_delta_v1''] \<and>
   on_message (ex_worker ex_deltas_v1) ''table_delta[]'' (Some (Bytes [0])) =
     Inl (Error ''Deserialization error: uint8'')"
  by (simp add: on_message_def deserialize_def ex_worker_def ex_eosjs_def ex_deltas_v1_def)

text \<open>
  Claim C5, amended. When a request for \<open>table_delta[]\<close> returns, every delta of the
  decoded array is a \<open>table_delta_v0\<close> and is posted with its name and with every row's
  data replaced by the value that decoding this data against the table named by the
  delta gives. When some delta of the array is not a \<open>table_delta_v0\<close>, the request does
  not return a result but throws. It throws the unsupported-delta error naming the tag
  of the first such delta when the rows of the deltas before it decode, and the error
  of decoding the first row that does not decode otherwise; and whenever it throws
  after the array is decoded, it does so in one of these two ways.
\<close>

theorem table_delta_rows_decoded:
  "(\<forall>p. on_message wk ''table_delta[]'' (Some d) = Inr p \<longrightarrow>
      (\<exists>ds ds'. deserialize wk ''table_delta[]'' d = Inr (TableDeltas ds) \<and>
         p = PostedDeltas ds' \<and> list_all2 (delta_decoded wk) ds ds')) \<and>
   (\<forall>ds. deserialize wk ''table_delta[]'' d = Inr (TableDeltas ds) \<longrightarrow>
      ((\<exists>x \<in> set ds. fst x \<noteq> ''table_delta_v0'') \<longrightarrow>
         (\<exists>e. on_message wk ''table_delta[]'' (Some d) = Inl e)) \<and>
      (\<forall>x. fails_at_delta wk ds x \<longrightarrow>
         on_message wk ''table_delta[]'' (Some d) =
           Inl (Error (''Unsupported table delta type received '' @ fst x))) \<and>
      (\<forall>r e. fails_at_row wk ds r e \<longrightarrow> on_message wk ''table_delta[]'' (Some d) = Inl e) \<and>
      (\<forall>e. on_message wk ''table_delta[]'' (Some d) = Inl e \<longrightarrow>
         (\<exists>x. fails_at_delta wk ds x \<and>
              e = Error (''Unsupported table delta type received '' @ fst x)) \<or>
         (\<exists>r. fails_at_row wk ds r e)))"
proof (intro conjI allI impI)
  fix p
  assume "on_message wk ''table_delta[]'' (Some d) = Inr p"
  then show "\<exists>ds ds'. deserialize wk ''table_delta[]'' d = Inr (TableDeltas ds) \<and>
         p = PostedDeltas ds' \<and> list_all2 (delta_decoded wk) ds ds'"
    by (auto simp: on_message_def dest: decode_deltas_decoded
        split: sum.splits decoded.splits)
next
  fix ds
  assume "deserialize wk ''table_delta[]'' d = Inr (TableDeltas ds)"
    and "\<exists>x \<in> set ds. fst x \<noteq> ''table_delta_v0''"
  with decode_deltas_fails [of ds wk]
  show "\<exists>e. on_message wk ''table_delta[]'' (Some d) = Inl e"
    by (auto simp: on_message_def)
next
  fix ds x
  assume "deserialize wk ''table_delta[]'' d = Inr (TableDeltas ds)"
    and "fails_at_delta wk ds x"
  with fails_at_delta_error [of wk ds x]
  show "on_message wk ''table_delta[]'' (Some d) =
        Inl (Error (''Unsupported table delta type received '' @ fst x))"
    by (simp add: on_message_def)
next
  fix ds r e
  assume "deserialize wk ''table_delta[]'' d = Inr (TableDeltas ds)"
    and "fails_at_row wk ds r e"
  with fails_at_row_error [of wk ds r e]
  show "on_message wk ''table_delta[]'' (Some d) = Inl e"
    by (simp add: on_message_def)
next
  fix ds e
  assume 1: "deserialize wk ''table_delta[]'' d = Inr (TableDeltas ds)"
    and 2: "on_message wk ''table_delta[]'' (Some d) = Inl e"
  from 1 2 have "decode_deltas wk ds = Inl e"
    by (auto simp: on_message_def split: sum.splits)
  then show "(\<exists>x. fails_at_delta wk ds x \<and>
              e = Error (''Unsupported table delta type received '' @ fst x)) \<or>
         (\<exists>r. fails_at_row wk ds r e)"
    by (rule decode_deltas_fails_how)
qed

theorem table_delta_rows_decoded_witness:
  "on_message (ex_worker ex_deltas_v0) ''table_delta[]'' (Some (Bytes [0])) =
     Inr (PostedDeltas ex_posted) \<and>
   deserialize (ex_worker ex_deltas_v0) ''table_delta[]'' (Bytes [0]) =
     Inr (TableDeltas ex_deltas_v0) \<and>
   list_all2 (delta_decoded (ex_worker ex_deltas_v0)) ex_deltas_v0 ex_posted \<and>
   deserialize (ex_worker (ex_deltas_v0 @ [ex_delta_v1])) ''table_delta[]'' (Bytes [0]) =
     Inr (TableDeltas (ex_deltas_v0 @ [ex_delta_v1])) \<and>
   fails_at_delta (ex_worker (ex_deltas_v0 @ [ex_delta_v1])) (ex_deltas_v0 @ [ex_delta_v1])
     ex_delta_v1 \<and>
   on_message (ex_worker (ex_deltas_v0 @ [ex_delta_v1])) ''table_delta[]'' (Some (Bytes [0])) =
     Inl (Error ''Unsupported table delta type received table_delta_v1'') \<and>
   deserialize (ex_worker ex_deltas_v1) ''table_delta[]'' (Bytes [0]) =
     Inr (TableDeltas ex_deltas_v1) \<and>
   fails_at_row (ex_worker ex_deltas_v1) ex_deltas_v1
     \<lparr>row_present = True, row_data = Bytes [1, 2]\<rparr> (Error ''Deserialization error: uint8'') \<and>
   on_message (ex_worker ex_deltas_v1) ''table_delta[]'' (Some (Bytes [0])) =
     Inl (Error ''Deserialization error: uint8'')"
proof -
  let ?wk = "ex_worker ex_deltas_v0" and ?wk' = "ex_worker (ex_deltas_v0 @ [ex_delta_v1])"
    and ?wk1 = "ex_worker ex_deltas_v1"
  let ?r = "\<lparr>row_present = True, row_data = Bytes [1, 2]\<rparr> :: input row"
  have 1: "on_message ?wk ''table_delta[]'' (Some (Bytes [0])) = Inr (PostedDeltas ex_posted)"
    by (simp add: on_message_def deserialize_def ex_worker_def ex_eosjs_def ex_deltas_v0_def
        ex_posted_def)
  have 2: "deserialize ?wk ''table_delta[]'' (Bytes [0]) = Inr (TableDeltas ex_deltas_v0)"
    by (simp add: deserialize_def ex_worker_def ex_eosjs_def)
  from table_delta_rows_decoded [of ?wk "Bytes [0]"] 1 2
  have 3: "list_all2 (delta_decoded ?wk) ex_deltas_v0 ex_posted"
    by fastforce
  have 4: "deserialize ?wk' ''table_delta[]'' (Bytes [0]) =
     Inr (TableDeltas (ex_deltas_v0 @ [ex_delta_v1]))"
    by (simp add: deserialize_def ex_worker_def ex_eosjs_def)
  have "ex_deltas_v0 @ [ex_delta_v1] = ex_deltas_v0 @ ex_delta_v1 # [] \<and>
      fst ex_delta_v1 \<noteq> ''table_delta_v0'' \<and> decode_deltas ?wk' ex_deltas_v0 = Inr ex_posted"
    by (simp add: deserialize_def ex_worker_def ex_eosjs_def ex_deltas_v0_def ex_posted_def
        ex_delta_v1_def)
  then have 5: "fails_at_delta ?wk' (ex_deltas_v0 @ [ex_delta_v1]) ex_delta_v1"
    unfolding fails_at_delta_def by blast
  from table_delta_rows_decoded [of ?wk' "Bytes [0]"] 4 5
  have "on_message ?wk' ''table_delta[]'' (Some (Bytes [0])) =
     Inl (Error (''Unsupported table delta type received '' @ fst ex_delta_v1))"
    by blast
  then have 6: "on_message ?wk' ''table_delta[]'' (Some (Bytes [0])) =
     Inl (Error ''Unsupported table delta type received table_delta_v1'')"
    by (simp add: ex_delta_v1_def)
  have 7: "deserialize ?wk1 ''table_delta[]'' (Bytes [0]) = Inr (TableDeltas ex_deltas_v1)"
    by (simp add: deserialize_def ex_worker_def ex_eosjs_def)
  have "ex_deltas_v1 =
        [] @ (''table_delta_v0'', \<lparr>delta_name = ''uint8'', delta_rows = [?r]\<rparr>) # [ex_delta_v1] \<and>
      fst (''table_delta_v0'', \<lparr>delta_name = ''uint8'', delta_rows = [?r]\<rparr>) = ''table_delta_v0'' \<and>
      decode_deltas ?wk1 [] = Inr [] \<and>
      delta_rows (snd (''table_delta_v0'', \<lparr>delta_name = ''uint8'', delta_rows = [?r]\<rparr>)) =
        [] @ ?r # [] \<and>
      decode_rows ?wk1
        (delta_name (snd (''table_delta_v0'', \<lparr>delta_name = ''uint8'', delta_rows = [?r]\<rparr>))) [] =
        Inr [] \<and>
      deserialize ?wk1
        (delta_name (snd (''table_delta_v0'', \<lparr>delta_name = ''uint8'', delta_rows = [?r]\<rparr>)))
        (row_data ?r) = Inl (Error ''Deserialization error: uint8'')"
    by (simp add: deserialize_def ex_worker_def ex_eosjs_def ex_deltas_v1_def ex_delta_v1_def)
  then have 8: "fails_at_row ?wk1 ex_deltas_v1 ?r (Error ''Deserialization error: uint8'')"
    unfolding fails_at_row_def by blast
  from table_delta_rows_decoded [of ?wk1 "Bytes [0]"] 7 8
  have 9: "on_message ?wk1 ''table_delta[]'' (Some (Bytes [0])) =
     Inl (Error ''Deserialization error: uint8'')"
    by blast
  from 1 2 3 4 5 6 7 8 9 show ?thesis by (intro conjI)
qed

section \<open>The view of sold listings\<close>

text \<open>
  The columns of the three tables that the view \<open>atomicmarket_stats_markets_master\<close>
  reads. The tables' definitions are not among the source files; the columns the view
  tests with \<open>IS NOT NULL\<close> are optional here, the others hold a value.
\<close>

record sale =
  sale_market_contract :: string
  sale_id :: int
  sale_maker_marketplace :: string
  sale_taker_marketplace :: "string option"
  sale_assets_contract :: string
  sale_collection_name :: string
  sale_settlement_symbol :: string
  sale_final_price :: "int option"
  sale_updated_at_time :: int
  sale_state :: int

record auction =
  auction_market_contract :: string
  auction_id :: int
  auction_maker_marketplace :: string
  auction_taker_marketplace :: "string option"
  auction_assets_contract :: string
  auction_collection_name :: string
  auction_token_symbol :: string
  auction_price :: int
  auction_end_time :: int
  auction_buyer :: "string option"
  auction_state :: int

record buyoffer =
  buyoffer_market_contract :: string
  buyoffer_id :: int
  buyoffer_maker_marketplace :: string
  buyoffer_taker_marketplace :: "string option"
  buyoffer_assets_contract :: string
  buyoffer_collection_name :: string
  buyoffer_token_symbol :: string
  buyoffer_price :: int
  buyoffer_updated_at_time :: int
  buyoffer_state :: int

text \<open>A row of the view.\<close>

record listing =
  market_contract :: string
  listing_type :: string
  listing_id :: int
  maker_marketplace :: string
  taker_marketplace :: "string option"
  assets_contract :: string
  collection_name :: string
  token_symbol :: string
  price :: "int option"
  time :: int

definition sale_listing :: "sale \<Rightarrow> listing" where
  "sale_listing s =
     \<lparr>market_contract = sale_market_contract s, listing_type = ''sale'',
      listing_id = sale_id s,
      maker_marketplace = sale_maker_marketplace s,
      taker_marketplace = sale_taker_marketplace s,
      assets_contract = sale_assets_contract s, collection_name = sale_collection_name s,
      token_symbol = sale_settlement_symbol s, price = sale_final_price s,
      time = sale_updated_at_time s\<rparr>"

definition auction_listing :: "auction \<Rightarrow> listing" where
  "auction_listing a =
     \<lparr>market_contract = auction_market_contract a, listing_type = ''auction'',
      listing_id = auction_id a,
      maker_marketplace = auction_maker_marketplace a,
      taker_marketplace = auction_taker_marketplace a,
      assets_contract = auction_assets_contract a,
      collection_name = auction_collection_name a,
      token_symbol = auction_token_symbol a, price = Some (auction_price a),
      time = auction_end_time a * 1000\<rparr>"

definition buyoffer_listing :: "buyoffer \<Rightarrow> listing" where
  "buyoffer_listing b =
     \<lparr>market_contract = buyoffer_market_contract b, listing_type = ''buyoffer'',
      listing_id = buyoffer_id b,
      maker_marketplace = buyoffer_maker_marketplace b,
      taker_marketplace = buyoffer_taker_marketplace b,
      assets_contract = buyoffer_assets_contract b,
      collection_name = buyoffer_collection_name b,
      token_symbol = buyoffer_token_symbol b, price = Some (buyoffer_price b),
      time = buyoffer_updated_at_time b\<rparr>"

text \<open>
  The view at the moment \<open>now\<close> (\<open>extract(epoch from now())\<close>, in seconds): the rows of
  the three selections, one after the other (\<open>UNION ALL\<close>).
\<close>

definition atomicmarket_stats_markets_master ::
  "real \<Rightarrow> sale list \<Rightarrow> auction list \<Rightarrow> buyoffer list \<Rightarrow> listing list" where
  "atomicmarket_stats_markets_master now sales auctions buyoffers =
     map sale_listing
       (filter (\<lambda>s. sale_final_price s \<noteq> None \<and> sale_state s = 3) sales) @
     map auction_listing
       (filter (\<lambda>a. auction_buyer a \<noteq> None \<and> auction_state a = 1 \<and>
                     real_of_int (auction_end_time a) < now) auctions) @
     map buyoffer_listing (filter (\<lambda>b. buyoffer_state b = 3) buyoffers)"

lemma filter_map_none: "(\<And>x. \<not> P (f x)) \<Longrightarrow> filter P (map f xs) = []"
  by (induction xs) simp_all

lemma filter_map_all: "(\<And>x. P (f x)) \<Longrightarrow> filter P (map f xs) = map f xs"
  by (induction xs) simp_all

text \<open>
  Claim C8. The rows of the view with listing type \<open>auction\<close> are exactly the rows made
  from the auctions that have a buyer, are in state 1 (listed, the state the handler
  stores) and whose end time lies before \<open>now\<close>, one row for each such auction, with the
  auction's id as listing id and its end time in milliseconds as time. An auction
  without a buyer, in another state or not yet ended gives no such row; no stored
  state says sold.
\<close>

theorem ended_auctions_with_buyer_counted:
  "filter (\<lambda>r. listing_type r = ''auction'')
     (atomicmarket_stats_markets_master now sales auctions buyoffers) =
   map auction_listing
     (filter (\<lambda>a. auction_buyer a \<noteq> None \<and>
                   auction_state a = AuctionState_valueOf AUCTION_LISTED \<and>
                   real_of_int (auction_end_time a) < now)
        auctions) \<and>
   listing_type (auction_listing a) = ''auction'' \<and>
   listing_id (auction_listing a) = auction_id a \<and>
   price (auction_listing a) = Some (auction_price a) \<and>
   time (auction_listing a) = auction_end_time a * 1000"
proof -
  have 1: "filter (\<lambda>r. listing_type r = ''auction'') (map sale_listing xs) = []" for xs
    by (rule filter_map_none) (simp add: sale_listing_def)
  have 2: "filter (\<lambda>r. listing_type r = ''auction'') (map buyoffer_listing xs) = []" for xs
    by (rule filter_map_none) (simp add: buyoffer_listing_def)
  have 3: "filter (\<lambda>r. listing_type r = ''auction'') (map auction_listing xs) =
           map auction_listing xs" for xs
    by (rule filter_map_all) (simp add: auction_listing_def)
  show ?thesis
    by (simp add: atomicmarket_stats_markets_master_def 1 2 3 auction_listing_def)
qed

section \<open>Single-entity endpoints of the API\<close>

text \<open>
  What an endpoint answers: the HTTP status (200 unless \<open>res.status\<close> sets another) and
  the JSON body, \<open>{success: true, data}\<close> or \<open>{success: false, message}\<close>. The
  \<open>query_time\<close> of some bodies is left out.
\<close>

datatype 'd body = Success 'd | Failure string

fun success :: "'d body \<Rightarrow> bool" where
  "success (Success d) = True"
| "success (Failure m) = False"

record 'd response =
  status :: nat
  body :: "'d body"

text \<open>\<open>xs[0]\<close>, which is \<open>undefined\<close> (\<open>None\<close>) on an empty array.\<close>

fun first :: "'a list \<Rightarrow> 'a option" where
  "first [] = None"
| "first (x # xs) = Some x"

text \<open>
  The database and the functions that fill and format the rows are not among the
  source files (or do not matter here): \<open>query\<close> is what the \<open>SELECT\<close> of the endpoint
  gives, its rows or the exception the database throws, and \<open>fill\<close> and \<open>format\<close> are
  parameters. \<open>rowCount\<close> is the number of rows.
\<close>

definition get_auction ::
  "(exn + 'r list) \<Rightarrow> ('r list \<Rightarrow> exn + 'd list) \<Rightarrow> 'd option response" where
  "get_auction query fillAuctions =
     (case query of
        Inl e \<Rightarrow> \<lparr>status = 500, body = Failure ''Internal Server Error''\<rparr>
      | Inr rows \<Rightarrow>
          if length rows = 0 then \<lparr>status = 500, body = Failure ''Auction not found''\<rparr>
          else
            (case fillAuctions rows of
               Inl e \<Rightarrow> \<lparr>status = 500, body = Failure ''Internal Server Error''\<rparr>
             | Inr auctions \<Rightarrow> \<lparr>status = 200, body = Success (first auctions)\<rparr>))"

definition get_sale ::
  "(exn + 'r list) \<Rightarrow> ('r list \<Rightarrow> exn + 'd list) \<Rightarrow> 'd option response" where
  "get_sale query fillSales =
     (case query of
        Inl e \<Rightarrow> \<lparr>status = 500, body = Failure ''Internal Server Error''\<rparr>
      | Inr rows \<Rightarrow>
          if length rows = 0 then \<lparr>status = 416, body = Failure ''Sale not found''\<rparr>
          else
            (case fillSales rows of
               Inl e \<Rightarrow> \<lparr>status = 500, body = Failure ''Internal Server Error''\<rparr>
             | Inr sales \<Rightarrow> \<lparr>status = 200, body = Success (first sales)\<rparr>))"

text \<open>\<open>formatCollection\<close> returns the row as it is.\<close>

definition formatCollection :: "'r \<Rightarrow> 'r" where
  "formatCollection row = row"

definition get_collection :: "(exn + 'r list) \<Rightarrow> 'r response" where
  "get_collection query =
     (case query of
        Inl e \<Rightarrow> \<lparr>status = 500, body = Failure ''Internal Server Error''\<rparr>
      | Inr rows \<Rightarrow>
          (case rows of
             [] \<Rightarrow> \<lparr>status = 416, body = Failure ''Collection not found''\<rparr>
           | r # rest \<Rightarrow> \<lparr>status = 200, body = Success (formatCollection r)\<rparr>))"

text \<open>\<open>formatAsset\<close> runs only on a row that was found; it is a parameter here.\<close>

definition get_asset ::
  "(exn + 'r list) \<Rightarrow> ('r \<Rightarrow> exn + 'd) \<Rightarrow> 'd response" where
  "get_asset query formatAsset =
     (case query of
        Inl e \<Rightarrow> \<lparr>status = 500, body = Failure ''Internal Server Error''\<rparr>
      | Inr rows \<Rightarrow>
          (case rows of
             [] \<Rightarrow> \<lparr>status = 500, body = Failure ''Asset not found''\<rparr>
           | r # rest \<Rightarrow>
               (case formatAsset r of
                  Inl e \<Rightarrow> \<lparr>status = 500, body = Failure ''Internal Server Error''\<rparr>
                | Inr a \<Rightarrow> \<lparr>status = 200, body = Success a\<rparr>)))"

text \<open>
  Claim C9. When the query finds no row, the sale and the collection endpoints answer
  with status 416 and the auction and the asset endpoints with status 500, each with
  \<open>success = false\<close> and its own message: the status for an entity that does not
  exist differs between the endpoints.
\<close>

theorem not_found_status_differs:
  "get_sale (Inr []) fillSales = \<lparr>status = 416, body = Failure ''Sale not found''\<rparr> \<and>
   get_collection (Inr []) = \<lparr>status = 416, body = Failure ''Collection not found''\<rparr> \<and>
   get_auction (Inr []) fillAuctions = \<lparr>status = 500, body = Failure ''Auction not found''\<rparr> \<and>
   get_asset (Inr []) formatAsset = \<lparr>status = 500, body = Failure ''Asset not found''\<rparr> \<and>
   \<not> success (body (get_sale (Inr []) fillSales)) \<and>
   \<not> success (body (get_collection (Inr []))) \<and>
   \<not> success (body (get_auction (Inr []) fillAuctions)) \<and>
   \<not> success (body (get_asset (Inr []) formatAsset)) \<and>
   status (get_sale (Inr []) fillSales) \<noteq> status (get_auction (Inr []) fillAuctions)"
  by (simp add: get_sale_def get_collection_def get_auction_def get_asset_def)


section \<open>The token endpoint\<close>

text \<open>
  The body of a request to \<open>POST /v1/token\<close>. \<open>req_block_num\<close> is
  \<open>parseInt(req.body.block_num, 10)\<close>, \<open>None\<close> being \<open>NaN\<close>; the other fields are the
  values as sent (\<open>JNull\<close> when missing).
\<close>

record token_request =
  req_block_num :: "int option"
  req_nonce :: jsval
  req_account :: jsval
  req_permission :: jsval
  req_signatures :: jsval

record auth_token =
  token_hash :: "byte list"
  token_account :: string
  token_nonce :: string
  token_created :: int
  token_expire :: int

text \<open>
  The block the chain returns: \<open>block_time\<close> is
  \<open>new Date(block.timestamp + '+0000').getTime()\<close>, milliseconds, \<open>None\<close> being \<open>NaN\<close>.
\<close>

record chain_block =
  block_time :: "int option"

text \<open>
  What the endpoint calls and does not define: whether the database answers, the
  clock (\<open>Date.now()\<close>, read once), the chain's \<open>get_block\<close>, the check of the
  signatures (building the transaction, recovering the keys and asking the chain for
  the required keys: an exception, or whether the chain reports no error), the random
  token and the hash.
\<close>

record auth_env =
  db_up :: bool
  clock :: int
  get_block :: "int \<Rightarrow> exn + chain_block"
  authenticated :: "token_request \<Rightarrow> chain_block \<Rightarrow> exn + bool"
  randomBytes :: "byte list"
  sha256 :: "byte list \<Rightarrow> byte list"
  hex :: "byte list \<Rightarrow> string"

fun is_string :: "jsval \<Rightarrow> bool" where
  "is_string (JStr s) = True"
| "is_string v = False"

fun is_array :: "jsval \<Rightarrow> bool" where
  "is_array (JArr xs) = True"
| "is_array v = False"

fun string_of :: "jsval \<Rightarrow> string" where
  "string_of (JStr s) = s"
| "string_of v = []"

text \<open>
  The four checks of the fields. \<open>req.body.nonce.account > 12\<close> and
  \<open>req.body.nonce.permission > 12\<close> read a property that a string does not have and
  compare \<open>undefined\<close> with 12, which is false: only the types of the account and
  the permission are checked.
\<close>

definition field_error :: "token_request \<Rightarrow> string option" where
  "field_error r =
     (if (case req_block_num r of None \<Rightarrow> True | Some n \<Rightarrow> n \<le> 0)
        then Some ''Invalid block num received''
      else if \<not> is_string (req_nonce r) \<or> 64 < length (string_of (req_nonce r))
        then Some ''Invalid nonce provided''
      else if \<not> is_string (req_account r) then Some ''Invalid account name provided''
      else if \<not> is_string (req_permission r) then Some ''Invalid permission name provided''
      else if \<not> is_array (req_signatures r) then Some ''Invalid signatures provided''
      else None)"

text \<open>
  The endpoint: the body it answers (always with status 200) and the \<open>auth_tokens\<close>
  table afterwards. The data of a success are the token in hexadecimal and its expiry.
  Past the checks of the fields the block number is a number (the \<open>None\<close> there is
  never reached).
\<close>

definition post_token ::
  "auth_env \<Rightarrow> token_request \<Rightarrow> auth_token list \<Rightarrow> (string \<times> int) body \<times> auth_token list" where
  "post_token env r auth_tokens =
     (case field_error r of
        Some m \<Rightarrow> (Failure m, auth_tokens)
      | None \<Rightarrow>
          let nonce = string_of (req_nonce r); account = string_of (req_account r) in
          if \<not> db_up env then (Failure ''Internal Server Error'', auth_tokens)
          else if 0 < length (filter (\<lambda>t. token_nonce t = nonce) auth_tokens)
            then (Failure ''Nonce already used'', auth_tokens)
          else
            (case (case req_block_num r of
                     None \<Rightarrow> Inl (Error ''Invalid block num received'')
                   | Some blockNum \<Rightarrow> get_block env blockNum) of
               Inl e \<Rightarrow> (Failure ''Internal Server Error'', auth_tokens)
             | Inr block \<Rightarrow>
                 if (case block_time block of
                       None \<Rightarrow> False
                     | Some t \<Rightarrow> 3600 * 24 * 1000 < clock env - t)
                   then (Failure ''Reference block older than a day'', auth_tokens)
                 else
                   (case authenticated env r block of
                      Inl e \<Rightarrow> (Failure ''Internal Server Error'', auth_tokens)
                    | Inr False \<Rightarrow> (Failure ''Authentication failed'', auth_tokens)
                    | Inr True \<Rightarrow>
                        let token = randomBytes env;
                            expire = clock env + 24 * 3600 * 30 * 1000
                        in (Success (hex env token, expire),
                            auth_tokens @
                              [\<lparr>token_hash = sha256 env token, token_account = account,
                                token_nonce = nonce, token_created = clock env,
                                token_expire = expire\<rparr>]))))"


text \<open>The reference block of a request is older than a day.\<close>

definition older_than_a_day :: "auth_env \<Rightarrow> token_request \<Rightarrow> bool" where
  "older_than_a_day env r =
     (case req_block_num r of
        None \<Rightarrow> False
      | Some n \<Rightarrow>
          (case get_block env n of
             Inl e \<Rightarrow> False
           | Inr b \<Rightarrow>
               (case block_time b of
                  None \<Rightarrow> False
                | Some t \<Rightarrow> 3600 * 24 * 1000 < clock env - t)))"

text \<open>The nonce of a request is the nonce of a row of the table.\<close>

definition nonce_used :: "token_request \<Rightarrow> auth_token list \<Rightarrow> bool" where
  "nonce_used r auth_tokens = (string_of (req_nonce r) \<in> token_nonce ` set auth_tokens)"

definition ex_request :: token_request where
  "ex_request =
     \<lparr>req_block_num = Some 7, req_nonce = JStr ''n-1'', req_account = JStr ''alice'',
      req_permission = JStr ''active'', req_signatures = JArr [JStr ''SIG_K1_x'']\<rparr>"

definition ex_env :: "int \<Rightarrow> auth_env" where
  "ex_env t =
     \<lparr>db_up = True, clock = 200000000,
      get_block = (\<lambda>n. Inr \<lparr>block_time = Some t\<rparr>),
      authenticated = (\<lambda>r b. Inr True),
      randomBytes = [1, 2], sha256 = (\<lambda>bs. rev bs), hex = (\<lambda>bs. ''0102'')\<rparr>"

definition ex_token :: auth_token where
  "ex_token =
     \<lparr>token_hash = [9], token_account = ''bob'', token_nonce = ''n-1'', token_created = 5,
      token_expire = 2592000005\<rparr>"

lemma nonce_used_filter:
  "nonce_used r auth_tokens \<longleftrightarrow>
     0 < length (filter (\<lambda>t. token_nonce t = string_of (req_nonce r)) auth_tokens)"
  by (simp add: nonce_used_def filter_empty_conv image_iff) metis

text \<open>
  Claim C10, as stated, fails: a request whose nonce is used and whose reference block
  is older than a day can get only one of the two answers, and gets the one for the
  nonce; and a request with a used nonce whose block number is not a number is
  answered by the check of the fields, which comes first.
\<close>

theorem used_nonce_and_old_block_counterexample:
  "nonce_used ex_request [ex_token] \<and> older_than_a_day (ex_env 1000) ex_request \<and>
   post_token (ex_env 1000) ex_request [ex_token] = (Failure ''Nonce already used'', [ex_token]) \<and>
   nonce_used (ex_request\<lparr>req_block_num := None\<rparr>) [ex_token] \<and>
   post_token (ex_env 1000) (ex_request\<lparr>req_block_num := None\<rparr>) [ex_token] =
     (Failure ''Invalid block num received'', [ex_token])"
  by (simp add: nonce_used_def older_than_a_day_def post_token_def field_error_def
      ex_request_def ex_env_def ex_token_def)

text \<open>
  Claim C10, amended. A request whose nonce is in the table, or whose reference block is
  more than 24 hours (3600 * 24 * 1000 ms) older than the clock, is rejected and the
  table stays as it is. When the fields of the request pass their checks and the
  database answers, a used nonce is answered with \<open>Nonce already used\<close>, and a fresh
  nonce with a reference block older than a day with
  \<open>Reference block older than a day\<close>. A request that succeeds has passed both checks
  and has added one row, with its nonce, to the table; a request that fails adds none.
\<close>

theorem token_only_after_both_checks:
  "(nonce_used r auth_tokens \<or> older_than_a_day env r \<longrightarrow>
      \<not> success (fst (post_token env r auth_tokens)) \<and>
      snd (post_token env r auth_tokens) = auth_tokens) \<and>
   (field_error r = None \<and> db_up env \<and> nonce_used r auth_tokens \<longrightarrow>
      fst (post_token env r auth_tokens) = Failure ''Nonce already used'') \<and>
   (field_error r = None \<and> db_up env \<and> \<not> nonce_used r auth_tokens \<and>
    older_than_a_day env r \<longrightarrow>
      fst (post_token env r auth_tokens) = Failure ''Reference block older than a day'') \<and>
   (success (fst (post_token env r auth_tokens)) \<longrightarrow>
      \<not> nonce_used r auth_tokens \<and> \<not> older_than_a_day env r \<and>
      (\<exists>t. snd (post_token env r auth_tokens) = auth_tokens @ [t] \<and>
           token_nonce t = string_of (req_nonce r))) \<and>
   (\<not> success (fst (post_token env r auth_tokens)) \<longrightarrow>
      snd (post_token env r auth_tokens) = auth_tokens)"
  by (auto simp: post_token_def nonce_used_filter older_than_a_day_def Let_def
      split: option.splits sum.splits bool.splits if_splits)


theorem token_only_after_both_checks_witness:
  "nonce_used ex_request [ex_token] \<and> field_error ex_request = None \<and>
   db_up (ex_env 1000) \<and>
   post_token (ex_env 1000) ex_request [ex_token] = (Failure ''Nonce already used'', [ex_token]) \<and>
   \<not> nonce_used ex_request [] \<and> older_than_a_day (ex_env 1000) ex_request \<and>
   post_token (ex_env 1000) ex_request [] = (Failure ''Reference block older than a day'', []) \<and>
   \<not> older_than_a_day (ex_env 199990000) ex_request \<and>
   success (fst (post_token (ex_env 199990000) ex_request [])) \<and>
   map token_nonce (snd (post_token (ex_env 199990000) ex_request [])) = [''n-1'']"
proof -
  have 1: "nonce_used ex_request [ex_token]"
    by (simp add: nonce_used_def ex_request_def ex_token_def)
  have 2: "field_error ex_request = None"
    by (simp add: field_error_def ex_request_def)
  have 3: "db_up (ex_env t)" for t
    by (simp add: ex_env_def)
  have 4: "\<not> nonce_used ex_request []"
    by (simp add: nonce_used_def)
  have 5: "older_than_a_day (ex_env 1000) ex_request"
    by (simp add: older_than_a_day_def ex_env_def ex_request_def)
  have 6: "\<not> older_than_a_day (ex_env 199990000) ex_request"
    by (simp add: older_than_a_day_def ex_env_def ex_request_def)
  have 7: "success (fst (post_token (ex_env 199990000) ex_request []))"
    by (simp add: post_token_def field_error_def ex_env_def ex_request_def)
  note a = token_only_after_both_checks [of ex_request "[ex_token]" "ex_env 1000"]
  note b = token_only_after_both_checks [of ex_request "[]" "ex_env 1000"]
  note c = token_only_after_both_checks [of ex_request "[]" "ex_env 199990000"]
  from a 1 2 3 have 8: "post_token (ex_env 1000) ex_request [ex_token] =
      (Failure ''Nonce already used'', [ex_token])"
    by (simp add: prod_eq_iff)
  from b 2 3 4 5 have 9: "post_token (ex_env 1000) ex_request [] =
      (Failure ''Reference block older than a day'', [])"
    by (simp add: prod_eq_iff)
  from c 7 obtain t where "snd (post_token (ex_env 199990000) ex_request []) = [] @ [t]"
    and "token_nonce t = string_of (req_nonce ex_request)"
    by blast
  then have 10: "map token_nonce (snd (post_token (ex_env 199990000) ex_request [])) = [''n-1'']"
    by (simp add: ex_request_def)
  from 1 2 3 [of 1000] 4 5 6 7 8 9 10 show ?thesis
    by (intro conjI)
qed

section \<open>Encodings of the states and priorities\<close>

text \<open>
  Modelled from the spec: the table and action handlers that write the \<open>state\<close> column
  of \<open>atomicmarket_auctions\<close> are not among the source files. By the spec (4.F) the
  state of an auction is one of WAITING = 0, LISTED = 1, CANCELED = 2, and SOLD = 3 and
  INVALID = 4 are derived: what the handler stores is a value of its enumeration
  \<open>AuctionState\<close>.
\<close>

definition store_auction_state :: "AuctionState \<Rightarrow> auction \<Rightarrow> auction" where
  "store_auction_state s a = a\<lparr>auction_state := AuctionState_valueOf s\<rparr>"

text \<open>
  Claim C7. The sale states are encoded WAITING = 0, LISTED = 1, CANCELED = 2, SOLD = 3;
  the auction states WAITING = 0, LISTED = 1, CANCELED = 2. The state stored for an
  auction is 0, 1 or 2, never 3 (sold) or 4 (invalid); sold is derived: the view of
  sold listings counts an auction stored as LISTED as soon as it has a buyer and its
  end time has passed. ACTION_UPDATE_SALE = 50 is below TABLE_SALES = 70, so on a new
  handler a job added with ACTION_UPDATE_SALE runs after a job added with TABLE_SALES
  when \<open>onBlockComplete\<close> drains the queue, whichever of the two was added first: the
  database ends as the write \<open>g\<close> of the TABLE_SALES job followed by the write \<open>f\<close> of
  the ACTION_UPDATE_SALE job.
\<close>

theorem state_and_priority_encodings:
  "SaleState_valueOf SALE_WAITING = 0 \<and> SaleState_valueOf SALE_LISTED = 1 \<and>
   SaleState_valueOf SALE_CANCELED = 2 \<and> SaleState_valueOf SALE_SOLD = 3 \<and>
   AuctionState_valueOf AUCTION_WAITING = 0 \<and> AuctionState_valueOf AUCTION_LISTED = 1 \<and>
   AuctionState_valueOf AUCTION_CANCELED = 2 \<and>
   (\<forall>s. AuctionState_valueOf s \<noteq> 3 \<and> AuctionState_valueOf s \<noteq> 4) \<and>
   (\<forall>s a. auction_state (store_auction_state s a) \<in> {0, 1, 2} \<and>
          auction_state (store_auction_state s a) \<noteq> 3 \<and>
          auction_state (store_auction_state s a) \<noteq> 4) \<and>
   filter (\<lambda>r. listing_type r = ''auction'')
     (atomicmarket_stats_markets_master now [] [store_auction_state AUCTION_LISTED a] []) =
     (if auction_buyer a \<noteq> None \<and> real_of_int (auction_end_time a) < now
      then [auction_listing (store_auction_state AUCTION_LISTED a)] else []) \<and>
   JobPriority_valueOf ACTION_UPDATE_SALE = 50 \<and> JobPriority_valueOf TABLE_SALES = 70 \<and>
   JobPriority_valueOf ACTION_UPDATE_SALE < JobPriority_valueOf TABLE_SALES \<and>
   (case AtomicMarketHandler_new chain reader (JStr account) of
      Inl x \<Rightarrow> False
    | Inr h \<Rightarrow>
        map_sum id (\<lambda>s. database (snd s))
          (onBlockComplete db
            (addUpdateJob [Write g] TABLE_SALES
              (addUpdateJob [Write f] ACTION_UPDATE_SALE (h, w)))) = Inr (f (g (database w))) \<and>
        map_sum id (\<lambda>s. database (snd s))
          (onBlockComplete db
            (addUpdateJob [Write f] ACTION_UPDATE_SALE
              (addUpdateJob [Write g] TABLE_SALES (h, w)))) = Inr (f (g (database w))))"
proof -
  have a: "AuctionState_valueOf s \<noteq> 3 \<and> AuctionState_valueOf s \<noteq> 4 \<and>
      AuctionState_valueOf s \<in> {0, 1, 2}" for s
    by (cases s) simp_all
  have b: "filter (\<lambda>r. listing_type r = ''auction'')
     (atomicmarket_stats_markets_master now [] [store_auction_state AUCTION_LISTED a] []) =
     (if auction_buyer a \<noteq> None \<and> real_of_int (auction_end_time a) < now
      then [auction_listing (store_auction_state AUCTION_LISTED a)] else [])"
    by (simp add: atomicmarket_stats_markets_master_def store_auction_state_def
        auction_listing_def)
  have c: "(case AtomicMarketHandler_new chain reader (JStr account) of
      Inl x \<Rightarrow> False
    | Inr h \<Rightarrow>
        map_sum id (\<lambda>s. database (snd s))
          (onBlockComplete db
            (addUpdateJob [Write g] TABLE_SALES
              (addUpdateJob [Write f] ACTION_UPDATE_SALE (h, w)))) = Inr (f (g (database w))) \<and>
        map_sum id (\<lambda>s. database (snd s))
          (onBlockComplete db
            (addUpdateJob [Write f] ACTION_UPDATE_SALE
              (addUpdateJob [Write g] TABLE_SALES (h, w)))) = Inr (f (g (database w))))"
    by (simp add: AtomicMarketHandler_new_def onBlockComplete_def addUpdateJob_def add_def
        pause_def start_def PQueue_new_def Let_def processUpdateQueue.simps)
  show ?thesis
    using a b c by (simp add: store_auction_state_def)
qed

end
